theory Spec2Isabelle
  imports Complex_Main
begin

section \<open>JavaScript values used by the scheduling core\<close>

text \<open>
  The numeric fields of a progress record hold a number, \<open>null\<close> or nothing at all
  (\<open>undefined\<close>), and one path of the algorithm produces \<open>NaN\<close>. Numbers are modelled as
  real numbers: the model is the exact-arithmetic reading of the IEEE doubles of the
  program, and infinities and negative zero are left out. The operations below follow the
  language: arithmetic converts its operands with \<open>ToNumber\<close> (\<open>null\<close> is 0, \<open>undefined\<close> is
  \<open>NaN\<close>), \<open>NaN\<close> is contagious, every comparison with \<open>NaN\<close> is false, and \<open>Math.round\<close>
  rounds to the nearest integer with ties going up.
\<close>

datatype jsval = Undefined | Null | NaN | Num real

fun ToNumber :: "jsval \<Rightarrow> jsval" where
  "ToNumber Undefined = NaN"
| "ToNumber Null = Num 0"
| "ToNumber NaN = NaN"
| "ToNumber (Num x) = Num x"

fun truthy :: "jsval \<Rightarrow> bool" where
  "truthy (Num x) = (x \<noteq> 0)"
| "truthy _ = False"

definition js_arith :: "(real \<Rightarrow> real \<Rightarrow> real) \<Rightarrow> jsval \<Rightarrow> jsval \<Rightarrow> jsval" where
  "js_arith f a b =
     (case ToNumber a of
        Num x \<Rightarrow> (case ToNumber b of Num y \<Rightarrow> Num (f x y) | _ \<Rightarrow> NaN)
      | _ \<Rightarrow> NaN)"

definition js_add :: "jsval \<Rightarrow> jsval \<Rightarrow> jsval" where
  "js_add = js_arith (+)"

definition js_sub :: "jsval \<Rightarrow> jsval \<Rightarrow> jsval" where
  "js_sub = js_arith (-)"

definition js_mul :: "jsval \<Rightarrow> jsval \<Rightarrow> jsval" where
  "js_mul = js_arith (*)"

text \<open>Division is only ever by the literal 100 in the program, so no quotient by zero
  (an infinity in the language) arises.\<close>

definition js_div :: "jsval \<Rightarrow> jsval \<Rightarrow> jsval" where
  "js_div = js_arith (/)"

definition Math_min :: "jsval \<Rightarrow> jsval \<Rightarrow> jsval" where
  "Math_min = js_arith min"

definition Math_max :: "jsval \<Rightarrow> jsval \<Rightarrow> jsval" where
  "Math_max = js_arith max"

definition Math_round :: "jsval \<Rightarrow> jsval" where
  "Math_round v = (case ToNumber v of Num x \<Rightarrow> Num (of_int \<lfloor>x + 1 / 2\<rfloor>) | _ \<Rightarrow> NaN)"

definition js_ge :: "jsval \<Rightarrow> jsval \<Rightarrow> bool" where
  "js_ge a b =
     (case ToNumber a of
        Num x \<Rightarrow> (case ToNumber b of Num y \<Rightarrow> x \<ge> y | _ \<Rightarrow> False)
      | _ \<Rightarrow> False)"

definition js_lt :: "jsval \<Rightarrow> jsval \<Rightarrow> bool" where
  "js_lt a b =
     (case ToNumber a of
        Num x \<Rightarrow> (case ToNumber b of Num y \<Rightarrow> x < y | _ \<Rightarrow> False)
      | _ \<Rightarrow> False)"

definition js_gt :: "jsval \<Rightarrow> jsval \<Rightarrow> bool" where
  "js_gt a b = js_lt b a"

text \<open>\<open>a || b\<close> on values.\<close>

definition js_or :: "jsval \<Rightarrow> jsval \<Rightarrow> jsval" where
  "js_or a b = (if truthy a then a else b)"

text \<open>A destructuring default \<open>{ f = d } = obj\<close>: the default replaces \<open>undefined\<close> only,
  never \<open>null\<close>.\<close>

definition withDefault :: "jsval \<Rightarrow> jsval \<Rightarrow> jsval" where
  "withDefault v d = (if v = Undefined then d else v)"


section \<open>Constants (utils/constants.js)\<close>

record config =
  baseEase :: real
  intervalChangeHard :: real
  easyBonus :: real
  enableLoadBalancer :: bool
  maxIntervalDays :: real
  maxLinkContribution :: real

definition DEFAULT_ALGORITHM_CONFIG :: config where
  "DEFAULT_ALGORITHM_CONFIG =
     \<lparr> baseEase = 250, intervalChangeHard = 50, easyBonus = 130,
       enableLoadBalancer = True, maxIntervalDays = 36525, maxLinkContribution = 50 \<rparr>"

definition HARD :: string where "HARD = ''hard''"
definition GOOD :: string where "GOOD = ''good''"
definition EASY :: string where "EASY = ''easy''"

text \<open>The lookup \<open>DEFAULT_INTERVALS[difficulty]\<close>; a key that is not in the table reads
  \<open>undefined\<close>.\<close>

definition DEFAULT_INTERVALS :: "string \<Rightarrow> jsval" where
  "DEFAULT_INTERVALS d =
     (if d = HARD then Num (1 / 2)
      else if d = GOOD then Num 1
      else if d = EASY then Num 4
      else Undefined)"


section \<open>The review algorithm (core/algorithm.js)\<close>

record progressRecord =
  reviewCount :: jsval
  ease :: jsval
  interval :: jsval
  lastReview :: jsval
  dueDate :: jsval
  difficulty :: "string option"

record SpacedRepetitionAlgorithm =
  config :: config
  configLoaded :: bool

text \<open>The first statement of \<open>calculateReview\<close>: an algorithm whose configuration was never
  loaded falls back to the defaults, and keeps them.\<close>

definition useDefaultsIfUnloaded :: "SpacedRepetitionAlgorithm \<Rightarrow> SpacedRepetitionAlgorithm" where
  "useDefaultsIfUnloaded alg =
     (if \<not> configLoaded alg then alg\<lparr>config := DEFAULT_ALGORITHM_CONFIG\<rparr> else alg)"

text \<open>\<open>applyLoadBalancer\<close>; \<open>rnd\<close> is the value \<open>Math.random()\<close> returns, in \<open>[0, 1)\<close>.\<close>

definition applyLoadBalancer :: "real \<Rightarrow> jsval \<Rightarrow> jsval" where
  "applyLoadBalancer rnd iv =
     (if js_lt iv (Num 1) then iv
      else let variation = 5 / 100;
               randomFactor = 1 + (rnd * 2 - 1) * variation
           in js_mul iv (Num randomFactor))"

text \<open>The branch on \<open>reviewCount\<close> and the \<open>switch\<close> on the difficulty: the pair
  \<open>(newInterval, newEase)\<close> before the load balancer and the cap.\<close>

definition intervalAndEase :: "config \<Rightarrow> jsval \<Rightarrow> jsval \<Rightarrow> jsval \<Rightarrow> string \<Rightarrow> jsval \<times> jsval" where
  "intervalAndEase cfg reviewCount0 ease0 interval0 d =
     (if reviewCount0 = Num 0 then (DEFAULT_INTERVALS d, ease0)
      else if d = HARD then
        (js_mul interval0 (Num (intervalChangeHard cfg / 100)),
         Math_max (Num 130) (js_sub ease0 (Num 20)))
      else if d = GOOD then
        (js_mul interval0 (js_div ease0 (Num 100)), ease0)
      else if d = EASY then
        (js_mul (js_mul interval0 (js_div ease0 (Num 100))) (Num (easyBonus cfg / 100)),
         js_add ease0 (Num 15))
      else (interval0, ease0))"

text \<open>\<open>calculateReview\<close>; \<open>now\<close> is the value of \<open>Date.now()\<close>.\<close>

definition calculateReview ::
    "SpacedRepetitionAlgorithm \<Rightarrow> real \<Rightarrow> real \<Rightarrow> progressRecord \<Rightarrow> string \<Rightarrow> progressRecord" where
  "calculateReview alg rnd now flashcardData d =
     (let cfg = config (useDefaultsIfUnloaded alg);
          reviewCount0 = withDefault (reviewCount flashcardData) (Num 0);
          ease0 = withDefault (ease flashcardData) (Num (baseEase cfg));
          interval0 = withDefault (interval flashcardData) (Num 0);
          ie = intervalAndEase cfg reviewCount0 ease0 interval0 d;
          balanced = (if enableLoadBalancer cfg \<and> js_ge (fst ie) (Num 1)
                      then applyLoadBalancer rnd (fst ie) else fst ie);
          newInterval = Math_min balanced (Num (maxIntervalDays cfg));
          due = js_add (Num now) (js_mul newInterval (Num (24 * 60 * 60 * 1000)))
      in flashcardData
           \<lparr> reviewCount := js_add reviewCount0 (Num 1),
             ease := Math_round (snd ie),
             interval := js_div (Math_round (js_mul newInterval (Num 100))) (Num 100),
             lastReview := Num now,
             dueDate := due,
             difficulty := Some d \<rparr>)"

text \<open>\<open>calculateInitialEase\<close>; the argument is \<open>options.linkedEase\<close>.\<close>

definition calculateInitialEase :: "SpacedRepetitionAlgorithm \<Rightarrow> jsval \<Rightarrow> jsval" where
  "calculateInitialEase alg linkedEase =
     (let base = Num (baseEase (config alg));
          e = (if truthy linkedEase \<and> maxLinkContribution (config alg) > 0
               then js_add base
                      (js_mul (js_sub linkedEase base)
                              (Num (maxLinkContribution (config alg) / 100)))
               else base)
      in Math_max (Num 130) (Math_round e))"

definition isDue :: "real \<Rightarrow> progressRecord \<Rightarrow> bool" where
  "isDue now flashcardData =
     (if \<not> truthy (dueDate flashcardData) then True
      else js_ge (Num now) (dueDate flashcardData))"


text \<open>The record \<open>getFlashcardProgress\<close> hands out for an id without stored progress.\<close>

definition defaultProgress :: progressRecord where
  "defaultProgress =
     \<lparr> reviewCount = Num 0, ease = Null, interval = Num 0,
       lastReview = Null, dueDate = Null, difficulty = None \<rparr>"


section \<open>Storage and the flashcard manager (core/storage.js, core/flashcards.js)\<close>

text \<open>
  The operations of the manager and of the scheduler are asynchronous in the program, and
  every call is awaited by its caller: they are modelled as sequential functions on the
  state. An operation that changes the state returns the new state next to its outcome,
  which is a normal return or the exception thrown; what was changed before an exception
  stays changed. Logging is left out.
\<close>

record flashcard =
  id_fc :: string
  question :: string
  answer :: string
  tags :: "string list"
  createdAt :: string

text \<open>The progress object: \<open>repeatLater\<close> may be missing from an object read back from
  storage, which \<open>markForLater\<close> repairs; the other two fields are always there.\<close>

record progressData =
  completed :: "string list"
  repeatLater :: "string list option"
  flashcardData :: "string \<rightharpoonup> progressRecord"

text \<open>The storage singleton: what is kept under the progress key (nothing before the
  first write), and whether the browser reports \<open>chrome.runtime.lastError\<close> on a call.\<close>

record StorageManager =
  stored :: "progressData option"
  lastError :: bool

definition emptyProgress :: progressData where
  "emptyProgress = \<lparr> completed = [], repeatLater = Some [], flashcardData = Map.empty \<rparr>"

definition storage_getProgress :: "StorageManager \<Rightarrow> progressData" where
  "storage_getProgress st =
     (if lastError st then emptyProgress
      else case stored st of None \<Rightarrow> emptyProgress | Some pd \<Rightarrow> pd)"

text \<open>\<open>storage.saveProgress\<close> catches whatever goes wrong and answers \<open>false\<close>: it never
  throws.\<close>

definition storage_saveProgress ::
    "StorageManager \<Rightarrow> progressData option \<Rightarrow> bool \<times> StorageManager" where
  "storage_saveProgress st p =
     (case p of
        None \<Rightarrow> (False, st)
      | Some pd \<Rightarrow> if lastError st then (False, st) else (True, st\<lparr>stored := Some pd\<rparr>))"

datatype js_error = TypeError

datatype 'a outcome = Returns 'a | Throws js_error

record FlashcardManager =
  flashcards :: "flashcard list"
  progress :: "progressData option"
  storage :: StorageManager

text \<open>The state of a manager right after its constructor.\<close>

definition newFlashcardManager :: "StorageManager \<Rightarrow> FlashcardManager" where
  "newFlashcardManager st = \<lparr> flashcards = [], progress = None, storage = st \<rparr>"

definition loadProgress :: "FlashcardManager \<Rightarrow> FlashcardManager" where
  "loadProgress m = m\<lparr>progress := Some (storage_getProgress (storage m))\<rparr>"

text \<open>\<open>saveProgress\<close>: a failed write is logged only. Its \<open>catch\<close> rethrows, but the storage
  call it guards never throws.\<close>

definition saveProgress :: "FlashcardManager \<Rightarrow> unit outcome \<times> FlashcardManager" where
  "saveProgress m =
     (case progress m of
        None \<Rightarrow> (Returns (), m)
      | Some pd \<Rightarrow>
          (Returns (), m\<lparr>storage := snd (storage_saveProgress (storage m) (Some pd))\<rparr>))"

definition getAllFlashcards :: "FlashcardManager \<Rightarrow> flashcard list" where
  "getAllFlashcards m = flashcards m"

definition getFlashcardById :: "FlashcardManager \<Rightarrow> string \<Rightarrow> flashcard option" where
  "getFlashcardById m i = find (\<lambda>fc. id_fc fc = i) (flashcards m)"

text \<open>Reading a property of \<open>this.progress\<close> while it is still \<open>null\<close> is a TypeError.\<close>

definition getFlashcardProgress :: "FlashcardManager \<Rightarrow> string \<Rightarrow> progressRecord outcome" where
  "getFlashcardProgress m i =
     (case progress m of
        None \<Rightarrow> Throws TypeError
      | Some pd \<Rightarrow>
          Returns (case flashcardData pd i of Some r \<Rightarrow> r | None \<Rightarrow> defaultProgress))"

text \<open>The object spread \<open>{...old, ...new}\<close> on the fields of a progress record: a property
  the new object has wins.\<close>

definition spread :: "progressRecord \<Rightarrow> progressRecord \<Rightarrow> progressRecord" where
  "spread old new =
     \<lparr> reviewCount = withDefault (reviewCount new) (reviewCount old),
       ease = withDefault (ease new) (ease old),
       interval = withDefault (interval new) (interval old),
       lastReview = withDefault (lastReview new) (lastReview old),
       dueDate = withDefault (dueDate new) (dueDate old),
       difficulty = (case difficulty new of None \<Rightarrow> difficulty old | Some d \<Rightarrow> Some d) \<rparr>"

definition emptyObject :: progressRecord where
  "emptyObject =
     \<lparr> reviewCount = Undefined, ease = Undefined, interval = Undefined,
       lastReview = Undefined, dueDate = Undefined, difficulty = None \<rparr>"

definition updateFlashcardProgress ::
    "FlashcardManager \<Rightarrow> string \<Rightarrow> progressRecord \<Rightarrow> unit outcome \<times> FlashcardManager" where
  "updateFlashcardProgress m i progressData =
     (case progress m of
        None \<Rightarrow> (Throws TypeError, m)
      | Some pd \<Rightarrow>
          let old = (case flashcardData pd i of None \<Rightarrow> emptyObject | Some r \<Rightarrow> r);
              pd' = pd\<lparr>flashcardData := (flashcardData pd)(i \<mapsto> spread old progressData)\<rparr>
          in saveProgress (m\<lparr>progress := Some pd'\<rparr>))"

definition markAsDone :: "FlashcardManager \<Rightarrow> string \<Rightarrow> unit outcome \<times> FlashcardManager" where
  "markAsDone m i =
     (case progress m of
        None \<Rightarrow> (Throws TypeError, m)
      | Some pd \<Rightarrow>
          if i \<notin> set (completed pd)
          then saveProgress (m\<lparr>progress := Some (pd\<lparr>completed := completed pd @ [i]\<rparr>)\<rparr>)
          else (Returns (), m))"

text \<open>\<open>FlashcardManager.markForLater\<close>.\<close>

definition fm_markForLater :: "FlashcardManager \<Rightarrow> string \<Rightarrow> unit outcome \<times> FlashcardManager" where
  "fm_markForLater m0 i =
     (let m = (if progress m0 = None then loadProgress m0 else m0)
      in case progress m of
           None \<Rightarrow> (Returns (), m)
         | Some pd \<Rightarrow>
             let q = (case repeatLater pd of None \<Rightarrow> [] | Some q \<Rightarrow> q)
             in if i \<notin> set q
                then saveProgress (m\<lparr>progress := Some (pd\<lparr>repeatLater := Some (q @ [i])\<rparr>)\<rparr>)
                else (Returns (), m\<lparr>progress := Some (pd\<lparr>repeatLater := Some q\<rparr>)\<rparr>))"

definition removeFromLater :: "FlashcardManager \<Rightarrow> string \<Rightarrow> unit outcome \<times> FlashcardManager" where
  "removeFromLater m i =
     (case progress m of
        None \<Rightarrow> (Throws TypeError, m)
      | Some pd \<Rightarrow>
          (case repeatLater pd of
             None \<Rightarrow> (Throws TypeError, m)
           | Some q \<Rightarrow>
               saveProgress
                 (m\<lparr>progress := Some (pd\<lparr>repeatLater := Some (filter (\<lambda>fcId. fcId \<noteq> i) q)\<rparr>)\<rparr>)))"

definition getUnshownFlashcards :: "FlashcardManager \<Rightarrow> string list outcome" where
  "getUnshownFlashcards m =
     (let allIds = map id_fc (flashcards m)
      in case progress m of
           None \<Rightarrow> Throws TypeError
         | Some pd \<Rightarrow> Returns (filter (\<lambda>i. i \<notin> set (completed pd)) allIds))"


section \<open>The scheduler (core/scheduler.js)\<close>

record Scheduler =
  flashcardManager :: "FlashcardManager option"
  algorithm :: "SpacedRepetitionAlgorithm option"

definition setDependencies ::
    "Scheduler \<Rightarrow> FlashcardManager \<Rightarrow> SpacedRepetitionAlgorithm \<Rightarrow> Scheduler" where
  "setDependencies sch flashcardManagerInstance algorithmInstance =
     sch\<lparr>flashcardManager := Some flashcardManagerInstance,
         algorithm := Some algorithmInstance\<rparr>"

text \<open>\<open>Array.prototype.map\<close> with a callback that may throw: the first exception ends it.\<close>

fun mapOutcome :: "('a \<Rightarrow> 'b outcome) \<Rightarrow> 'a list \<Rightarrow> 'b list outcome" where
  "mapOutcome f [] = Returns []"
| "mapOutcome f (x # xs) =
     (case f x of
        Throws e \<Rightarrow> Throws e
      | Returns y \<Rightarrow>
          (case mapOutcome f xs of Throws e \<Rightarrow> Throws e | Returns ys \<Rightarrow> Returns (y # ys)))"

text \<open>
  \<open>Array.prototype.sort\<close> with a comparator. The language promises a stable sort; which
  order comes out for a comparator that is not a consistent ordering is left to the engine.
  The model is the stable insertion sort: an element is put before the first one that the
  comparator places after it (\<open>cmp y x > 0\<close>). On two elements every sort agrees with it.
\<close>

fun insertSorted :: "('a \<Rightarrow> 'a \<Rightarrow> jsval) \<Rightarrow> 'a \<Rightarrow> 'a list \<Rightarrow> 'a list" where
  "insertSorted cmp x [] = [x]"
| "insertSorted cmp x (y # ys) =
     (if js_gt (cmp y x) (Num 0) then x # y # ys else y # insertSorted cmp x ys)"

definition Array_sort :: "('a \<Rightarrow> 'a \<Rightarrow> jsval) \<Rightarrow> 'a list \<Rightarrow> 'a list" where
  "Array_sort cmp xs = foldl (\<lambda>acc x. insertSorted cmp x acc) [] xs"

text \<open>The comparator of the due tier: both due dates when both are truthy, the review
  counts (\<open>reviewCount || 0\<close>) otherwise.\<close>

definition compareDue :: "flashcard \<times> progressRecord \<Rightarrow> flashcard \<times> progressRecord \<Rightarrow> jsval" where
  "compareDue a b =
     (if truthy (dueDate (snd a)) \<and> truthy (dueDate (snd b))
      then js_sub (dueDate (snd a)) (dueDate (snd b))
      else js_sub (js_or (reviewCount (snd a)) (Num 0)) (js_or (reviewCount (snd b)) (Num 0)))"

definition getDueFlashcard ::
    "Scheduler \<Rightarrow> real \<Rightarrow> (flashcard \<times> progressRecord) option outcome" where
  "getDueFlashcard sch now =
     (case flashcardManager sch of
        None \<Rightarrow> Returns None
      | Some m \<Rightarrow>
          (case algorithm sch of
             None \<Rightarrow> Returns None
           | Some alg \<Rightarrow>
               (case mapOutcome
                       (\<lambda>fc. case getFlashcardProgress m (id_fc fc) of
                               Throws e \<Rightarrow> Throws e
                             | Returns fcProgress \<Rightarrow> Returns (fc, fcProgress))
                       (getAllFlashcards m) of
                  Throws e \<Rightarrow> Throws e
                | Returns entries \<Rightarrow>
                    let dueFlashcards =
                          Array_sort compareDue
                            (filter (\<lambda>(fc, p). \<not> truthy (dueDate p) \<or> isDue now p) entries)
                    in (case dueFlashcards of
                          [] \<Rightarrow> Returns None
                        | first # rest \<Rightarrow> Returns (Some first)))))"

text \<open>\<open>getUnshownFlashcard\<close>; \<open>rnd\<close> is the value of \<open>Math.random()\<close>. An index outside the
  array reads \<open>undefined\<close>, an id no card has.\<close>

definition getUnshownFlashcard ::
    "Scheduler \<Rightarrow> real \<Rightarrow> (flashcard \<times> progressRecord) option outcome" where
  "getUnshownFlashcard sch rnd =
     (case flashcardManager sch of
        None \<Rightarrow> Returns None
      | Some m \<Rightarrow>
          (case getUnshownFlashcards m of
             Throws e \<Rightarrow> Throws e
           | Returns unshownIds \<Rightarrow>
               if length unshownIds = 0 then Returns None
               else
                 let randomIndex = \<lfloor>rnd * real (length unshownIds)\<rfloor>
                 in if 0 \<le> randomIndex \<and> randomIndex < int (length unshownIds)
                    then
                      (let selectedId = unshownIds ! nat randomIndex
                       in case getFlashcardById m selectedId of
                            None \<Rightarrow> Returns None
                          | Some fc \<Rightarrow>
                              (case getFlashcardProgress m selectedId of
                                 Throws e \<Rightarrow> Throws e
                               | Returns p \<Rightarrow> Returns (Some (fc, p))))
                    else Returns None))"

definition getLaterFlashcard :: "Scheduler \<Rightarrow> (flashcard \<times> progressRecord) option outcome" where
  "getLaterFlashcard sch =
     (case flashcardManager sch of
        None \<Rightarrow> Returns None
      | Some m \<Rightarrow>
          (case progress m of
             None \<Rightarrow> Throws TypeError
           | Some pd \<Rightarrow>
               (case repeatLater pd of
                  None \<Rightarrow> Throws TypeError
                | Some [] \<Rightarrow> Returns None
                | Some (selectedId # rest) \<Rightarrow>
                    (case getFlashcardById m selectedId of
                       None \<Rightarrow> Returns None
                     | Some fc \<Rightarrow>
                         (case getFlashcardProgress m selectedId of
                            Throws e \<Rightarrow> Throws e
                          | Returns p \<Rightarrow> Returns (Some (fc, p)))))))"

definition getNextFlashcard ::
    "Scheduler \<Rightarrow> real \<Rightarrow> real \<Rightarrow> (flashcard \<times> progressRecord) option outcome" where
  "getNextFlashcard sch now rnd =
     (if flashcardManager sch = None \<or> algorithm sch = None then Returns None
      else case getDueFlashcard sch now of
             Throws e \<Rightarrow> Throws e
           | Returns (Some dueFlashcard) \<Rightarrow> Returns (Some dueFlashcard)
           | Returns None \<Rightarrow>
               (case getUnshownFlashcard sch rnd of
                  Throws e \<Rightarrow> Throws e
                | Returns (Some unshownFlashcard) \<Rightarrow> Returns (Some unshownFlashcard)
                | Returns None \<Rightarrow>
                    (case getLaterFlashcard sch of
                       Throws e \<Rightarrow> Throws e
                     | Returns (Some laterFlashcard) \<Rightarrow> Returns (Some laterFlashcard)
                     | Returns None \<Rightarrow> Returns None)))"

text \<open>Sequencing of two manager calls under \<open>await\<close>: an exception of the first skips the
  second, and what the first did to the manager stays.\<close>

definition andThen ::
    "unit outcome \<times> FlashcardManager \<Rightarrow> (FlashcardManager \<Rightarrow> unit outcome \<times> FlashcardManager)
       \<Rightarrow> unit outcome \<times> FlashcardManager" where
  "andThen r f = (case fst r of Throws e \<Rightarrow> (Throws e, snd r) | Returns u \<Rightarrow> f (snd r))"

definition recordReview ::
    "Scheduler \<Rightarrow> real \<Rightarrow> real \<Rightarrow> string \<Rightarrow> string \<Rightarrow> unit outcome \<times> Scheduler" where
  "recordReview sch rnd now flashcardId d =
     (case flashcardManager sch of
        None \<Rightarrow> (Returns (), sch)
      | Some m \<Rightarrow>
          (case algorithm sch of
             None \<Rightarrow> (Returns (), sch)
           | Some alg \<Rightarrow>
               (case getFlashcardProgress m flashcardId of
                  Throws e \<Rightarrow> (Throws e, sch)
                | Returns currentProgress \<Rightarrow>
                    let updatedProgress = calculateReview alg rnd now currentProgress d;
                        r = andThen (updateFlashcardProgress m flashcardId updatedProgress)
                              (\<lambda>m1. if d = GOOD \<or> d = EASY
                                     then andThen (markAsDone m1 flashcardId)
                                            (\<lambda>m2. removeFromLater m2 flashcardId)
                                     else (Returns (), m1))
                    in (fst r, sch\<lparr>flashcardManager := Some (snd r),
                                    algorithm := Some (useDefaultsIfUnloaded alg)\<rparr>))))"

text \<open>\<open>Scheduler.markForLater\<close>: its \<open>catch\<close> logs the error and throws it again.\<close>

definition markForLater :: "Scheduler \<Rightarrow> string \<Rightarrow> unit outcome \<times> Scheduler" where
  "markForLater sch flashcardId =
     (case flashcardManager sch of
        None \<Rightarrow> (Returns (), sch)
      | Some m \<Rightarrow>
          (case fm_markForLater m flashcardId of
             (Throws error, m') \<Rightarrow> (Throws error, sch\<lparr>flashcardManager := Some m'\<rparr>)
           | (Returns u, m') \<Rightarrow> (Returns (), sch\<lparr>flashcardManager := Some m'\<rparr>)))"

record stats =
  dueCount :: nat
  newCount :: nat
  laterCount :: nat
  total :: nat

text \<open>One round of the \<open>forEach\<close> of \<open>getSchedulingStats\<close>.\<close>

definition countFlashcard ::
    "FlashcardManager \<Rightarrow> progressData option \<Rightarrow> real \<Rightarrow> flashcard \<Rightarrow> stats \<Rightarrow> stats outcome" where
  "countFlashcard m progress0 now fc st =
     (case getFlashcardProgress m (id_fc fc) of
        Throws e \<Rightarrow> Throws e
      | Returns fcProgress \<Rightarrow>
          let st1 = (if reviewCount fcProgress = Num 0 then st\<lparr>newCount := newCount st + 1\<rparr>
                     else if isDue now fcProgress then st\<lparr>dueCount := dueCount st + 1\<rparr>
                     else st)
          in (case progress0 of
                None \<Rightarrow> Throws TypeError
              | Some pd \<Rightarrow>
                  (case repeatLater pd of
                     None \<Rightarrow> Throws TypeError
                   | Some q \<Rightarrow>
                       Returns (if id_fc fc \<in> set q
                                then st1\<lparr>laterCount := laterCount st1 + 1\<rparr> else st1))))"

fun forEachCount ::
    "FlashcardManager \<Rightarrow> progressData option \<Rightarrow> real \<Rightarrow> flashcard list \<Rightarrow> stats \<Rightarrow> stats outcome" where
  "forEachCount m progress0 now [] st = Returns st"
| "forEachCount m progress0 now (fc # fcs) st =
     (case countFlashcard m progress0 now fc st of
        Throws e \<Rightarrow> Throws e
      | Returns st' \<Rightarrow> forEachCount m progress0 now fcs st')"

definition getSchedulingStats :: "Scheduler \<Rightarrow> real \<Rightarrow> stats outcome" where
  "getSchedulingStats sch now =
     (case flashcardManager sch of
        None \<Rightarrow> Returns \<lparr> dueCount = 0, newCount = 0, laterCount = 0, total = 0 \<rparr>
      | Some m \<Rightarrow>
          (case algorithm sch of
             None \<Rightarrow> Returns \<lparr> dueCount = 0, newCount = 0, laterCount = 0, total = 0 \<rparr>
           | Some alg \<Rightarrow>
               let allFlashcards = getAllFlashcards m
               in forEachCount m (progress m) now allFlashcards
                    \<lparr> dueCount = 0, newCount = 0, laterCount = 0,
                      total = length allFlashcards \<rparr>))"

definition hasFlashcardsAvailable :: "Scheduler \<Rightarrow> real \<Rightarrow> real \<Rightarrow> bool outcome" where
  "hasFlashcardsAvailable sch now rnd =
     (if flashcardManager sch = None \<or> algorithm sch = None then Returns False
      else case getNextFlashcard sch now rnd of
             Throws e \<Rightarrow> Throws e
           | Returns r \<Rightarrow> Returns (r \<noteq> None))"

text \<open>The scheduler right after its constructor.\<close>

definition newScheduler :: Scheduler where
  "newScheduler = \<lparr> flashcardManager = None, algorithm = None \<rparr>"


section \<open>Definitions used to state the properties\<close>

text \<open>The initial ease as the specification words it: the weighted formula when a linked
  ease is given (\<open>Some\<close>) and the contribution is positive, the base ease otherwise; then
  at least 130 and rounded to an integer. It is compared with \<open>calculateInitialEase\<close> below.\<close>

definition calculateInitialEase_spec :: "config \<Rightarrow> real option \<Rightarrow> int" where
  "calculateInitialEase_spec cfg linkedEase =
     (let e = (case linkedEase of
                 Some l \<Rightarrow>
                   if maxLinkContribution cfg > 0
                   then baseEase cfg + (l - baseEase cfg) * (maxLinkContribution cfg / 100)
                   else baseEase cfg
               | None \<Rightarrow> baseEase cfg)
      in max 130 \<lfloor>e + 1 / 2\<rfloor>)"

text \<open>The repeat-later queue a manager holds; a manager without progress, or a progress
  object without the field, holds none.\<close>

definition laterQueue :: "FlashcardManager \<Rightarrow> string list" where
  "laterQueue m =
     (case progress m of
        None \<Rightarrow> []
      | Some pd \<Rightarrow> (case repeatLater pd of None \<Rightarrow> [] | Some q \<Rightarrow> q))"

text \<open>A catalog of three cards, the one of the integration test, with progress for the
  scenario of an overdue, a future-dated and a never-reviewed card: \<open>fc-1\<close> was due at time
  2000, \<open>fc-2\<close> is due at 9000, and \<open>fc-3\<close> has no stored progress.\<close>

definition fc1 :: flashcard where
  "fc1 = \<lparr> id_fc = ''fc-1'', question = ''Q1'', answer = ''A1'', tags = [],
           createdAt = ''2024-01-01'' \<rparr>"

definition fc2 :: flashcard where
  "fc2 = \<lparr> id_fc = ''fc-2'', question = ''Q2'', answer = ''A2'', tags = [],
           createdAt = ''2024-01-01'' \<rparr>"

definition fc3 :: flashcard where
  "fc3 = \<lparr> id_fc = ''fc-3'', question = ''Q3'', answer = ''A3'', tags = [],
           createdAt = ''2024-01-01'' \<rparr>"

definition overdueRecord :: progressRecord where
  "overdueRecord =
     \<lparr> reviewCount = Num 1, ease = Num 250, interval = Num 1,
       lastReview = Num 1000, dueDate = Num 2000, difficulty = Some ''hard'' \<rparr>"

definition futureRecord :: progressRecord where
  "futureRecord =
     \<lparr> reviewCount = Num 1, ease = Num 250, interval = Num 1,
       lastReview = Num 1000, dueDate = Num 9000, difficulty = Some ''good'' \<rparr>"

definition exampleProgress :: progressData where
  "exampleProgress =
     \<lparr> completed = [''fc-2''], repeatLater = Some [],
       flashcardData = [''fc-1'' \<mapsto> overdueRecord, ''fc-2'' \<mapsto> futureRecord] \<rparr>"

definition exampleManager :: FlashcardManager where
  "exampleManager =
     \<lparr> flashcards = [fc1, fc2, fc3], progress = Some exampleProgress,
       storage = \<lparr> stored = Some exampleProgress, lastError = False \<rparr> \<rparr>"

definition exampleScheduler :: Scheduler where
  "exampleScheduler =
     \<lparr> flashcardManager = Some exampleManager,
       algorithm = Some \<lparr> config = DEFAULT_ALGORITHM_CONFIG, configLoaded = True \<rparr> \<rparr>"


section \<open>Facts about the value operations\<close>

lemmas js_ops = js_add_def js_sub_def js_mul_def js_div_def Math_min_def Math_max_def

lemmas difficulty_defs = HARD_def GOOD_def EASY_def

lemmas example_defs = exampleScheduler_def exampleManager_def exampleProgress_def
  overdueRecord_def futureRecord_def fc1_def fc2_def fc3_def

lemma js_arith_Num [simp]: "js_arith f (Num x) (Num y) = Num (f x y)"
  by (simp add: js_arith_def)

lemma js_arith_not_Undefined [simp]: "js_arith f a b \<noteq> Undefined"
  by (simp add: js_arith_def split: jsval.splits)

lemma Math_round_Num [simp]: "Math_round (Num x) = Num (of_int \<lfloor>x + 1 / 2\<rfloor>)"
  by (simp add: Math_round_def)

lemma Math_round_not_Undefined [simp]: "Math_round v \<noteq> Undefined"
  by (simp add: Math_round_def split: jsval.splits)

lemma js_ge_ToNumber: "ToNumber a = Num x \<Longrightarrow> js_ge a (Num y) = (y \<le> x)"
  by (simp add: js_ge_def)

lemma js_lt_Num [simp]: "js_lt (Num x) (Num y) = (x < y)"
  by (simp add: js_lt_def)

lemma js_ge_Num [simp]: "js_ge (Num x) (Num y) = (y \<le> x)"
  by (simp add: js_ge_def)

lemma withDefault_Num [simp]: "withDefault (Num x) d = Num x"
  by (simp add: withDefault_def)

lemma withDefault_Null [simp]: "withDefault Null d = Null"
  by (simp add: withDefault_def)

lemma withDefault_Undefined [simp]: "withDefault Undefined d = d"
  by (simp add: withDefault_def)

lemma Math_round_Null [simp]: "Math_round Null = Num 0"
  by (simp add: Math_round_def)

lemma js_arith_Null_left [simp]: "js_arith f Null (Num y) = Num (f 0 y)"
  by (simp add: js_arith_def)

lemma ToNumber_withDefault:
  "v \<noteq> NaN \<Longrightarrow> \<exists>x. ToNumber (withDefault v (Num c)) = Num x"
  by (cases v) simp_all

lemma js_arith_numeric:
  "ToNumber a = Num x \<Longrightarrow> ToNumber b = Num y \<Longrightarrow> ToNumber (js_arith f a b) = Num (f x y)"
  by (simp add: js_arith_def)

text \<open>Rounding to the nearest integer is monotone and leaves integers alone; so rounding
  to two decimals is monotone and leaves multiples of 0.01 alone.\<close>

lemma round_mono: "(x::real) \<le> y \<Longrightarrow> \<lfloor>x + 1 / 2\<rfloor> \<le> \<lfloor>y + 1 / 2\<rfloor>"
  by (simp add: floor_mono)

lemma round_of_int: "\<lfloor>(of_int k :: real) + 1 / 2\<rfloor> = k"
  by linarith

lemma round2_exact: "(a::real) * 100 \<in> \<int> \<Longrightarrow> of_int \<lfloor>a * 100 + 1 / 2\<rfloor> / 100 = a"
proof -
  assume "a * 100 \<in> \<int>"
  then obtain k where k: "a * 100 = of_int k" by (auto elim: Ints_cases)
  have "\<lfloor>a * 100 + 1 / 2\<rfloor> = k" unfolding k by (rule round_of_int)
  then show ?thesis using k by simp
qed

lemma round2_mono:
  "(x::real) \<le> y \<Longrightarrow>
     of_int \<lfloor>x * 100 + 1 / 2\<rfloor> / 100 \<le> (of_int \<lfloor>y * 100 + 1 / 2\<rfloor> / 100 :: real)"
proof -
  assume "x \<le> y"
  then have "\<lfloor>x * 100 + 1 / 2\<rfloor> \<le> \<lfloor>y * 100 + 1 / 2\<rfloor>" by (intro round_mono) simp
  then show ?thesis by (simp add: divide_right_mono)
qed

lemma round2_le:
  assumes "(x::real) \<le> c" and "c * 100 \<in> \<int>"
  shows "of_int \<lfloor>x * 100 + 1 / 2\<rfloor> / 100 \<le> c"
  using round2_mono [OF assms(1)] round2_exact [OF assms(2)] by simp


section \<open>The review algorithm: intervals\<close>

text \<open>What \<open>calculateReview\<close> does to a numeric interval \<open>x\<close> that the branch on the review
  count and the difficulty produced: the jitter of the load balancer when it is enabled
  and \<open>x\<close> is at least a day, then the cap, then the rounding to two decimals.\<close>

lemma calculateReview_interval:
  assumes "ToNumber (fst (intervalAndEase (config (useDefaultsIfUnloaded alg))
              (withDefault (reviewCount p) (Num 0))
              (withDefault (ease p) (Num (baseEase (config (useDefaultsIfUnloaded alg)))))
              (withDefault (interval p) (Num 0)) d)) = Num x"
  shows "interval (calculateReview alg rnd now p d) =
           Num (of_int \<lfloor>min (if enableLoadBalancer (config (useDefaultsIfUnloaded alg)) \<and> 1 \<le> x
                              then x * (1 + (rnd * 2 - 1) * (5 / 100)) else x)
                            (maxIntervalDays (config (useDefaultsIfUnloaded alg))) * 100 + 1 / 2\<rfloor> / 100)"
proof -
  let ?v = "fst (intervalAndEase (config (useDefaultsIfUnloaded alg))
              (withDefault (reviewCount p) (Num 0))
              (withDefault (ease p) (Num (baseEase (config (useDefaultsIfUnloaded alg)))))
              (withDefault (interval p) (Num 0)) d)"
  have ge: "js_ge ?v (Num 1) = (1 \<le> x)" using assms by (rule js_ge_ToNumber)
  have lt: "1 \<le> x \<Longrightarrow> \<not> js_lt ?v (Num 1)" using assms by (simp add: js_lt_def)
  have mul: "\<And>c. js_arith (*) ?v (Num c) = Num (x * c)" using assms by (simp add: js_arith_def)
  have mn: "\<And>c. js_arith min ?v (Num c) = Num (min x c)" using assms by (simp add: js_arith_def)
  show ?thesis
    using ge lt mul mn
    by (simp add: calculateReview_def Let_def applyLoadBalancer_def js_ops)
qed

lemma intervalAndEase_first:
  "fst (intervalAndEase cfg (Num 0) e0 i0 d) = DEFAULT_INTERVALS d"
  by (simp add: intervalAndEase_def)

lemma DEFAULT_INTERVALS_values:
  "DEFAULT_INTERVALS HARD = Num (1 / 2)"
  "DEFAULT_INTERVALS GOOD = Num 1"
  "DEFAULT_INTERVALS EASY = Num 4"
  by (simp_all add: DEFAULT_INTERVALS_def difficulty_defs)

lemma intervalAndEase_hard:
  "rc \<noteq> Num 0 \<Longrightarrow>
     intervalAndEase cfg rc e0 i0 HARD =
       (js_mul i0 (Num (intervalChangeHard cfg / 100)), Math_max (Num 130) (js_sub e0 (Num 20)))"
  by (simp add: intervalAndEase_def)

lemma intervalAndEase_good:
  "rc \<noteq> Num 0 \<Longrightarrow>
     intervalAndEase cfg rc e0 i0 GOOD = (js_mul i0 (js_div e0 (Num 100)), e0)"
  by (simp add: intervalAndEase_def difficulty_defs)

lemma intervalAndEase_easy:
  "rc \<noteq> Num 0 \<Longrightarrow>
     intervalAndEase cfg rc e0 i0 EASY =
       (js_mul (js_mul i0 (js_div e0 (Num 100))) (Num (easyBonus cfg / 100)),
        js_add e0 (Num 15))"
  by (simp add: intervalAndEase_def difficulty_defs)

lemma intervalAndEase_other:
  "rc \<noteq> Num 0 \<Longrightarrow> d \<noteq> HARD \<Longrightarrow> d \<noteq> GOOD \<Longrightarrow> d \<noteq> EASY \<Longrightarrow>
     intervalAndEase cfg rc e0 i0 d = (i0, e0)"
  by (simp add: intervalAndEase_def)

text \<open>The three formulas of a later review, on numeric inputs.\<close>

lemma later_review_intervals:
  assumes rc: "rc \<noteq> Num 0" and i0: "ToNumber i0 = Num i" and e0: "ToNumber e0 = Num e"
  shows "ToNumber (fst (intervalAndEase cfg rc e0 i0 HARD)) = Num (i * (intervalChangeHard cfg / 100))"
    and "ToNumber (fst (intervalAndEase cfg rc e0 i0 GOOD)) = Num (i * (e / 100))"
    and "ToNumber (fst (intervalAndEase cfg rc e0 i0 EASY)) = Num (i * (e / 100) * (easyBonus cfg / 100))"
proof -
  have q: "ToNumber (js_arith (/) e0 (Num 100)) = Num (e / 100)"
    by (rule js_arith_numeric [OF e0]) simp
  have g: "ToNumber (js_arith (*) i0 (js_arith (/) e0 (Num 100))) = Num (i * (e / 100))"
    using i0 q by (rule js_arith_numeric)
  show "ToNumber (fst (intervalAndEase cfg rc e0 i0 HARD)) = Num (i * (intervalChangeHard cfg / 100))"
    unfolding intervalAndEase_hard [OF rc] fst_conv js_mul_def
    by (rule js_arith_numeric [OF i0]) simp
  show "ToNumber (fst (intervalAndEase cfg rc e0 i0 GOOD)) = Num (i * (e / 100))"
    unfolding intervalAndEase_good [OF rc] fst_conv js_mul_def js_div_def by (rule g)
  show "ToNumber (fst (intervalAndEase cfg rc e0 i0 EASY)) = Num (i * (e / 100) * (easyBonus cfg / 100))"
    unfolding intervalAndEase_easy [OF rc] fst_conv js_mul_def js_div_def
    by (rule js_arith_numeric [OF g]) simp
qed

lemma intervalAndEase_numeric:
  assumes d: "d = HARD \<or> d = GOOD \<or> d = EASY"
    and i0: "ToNumber i0 = Num i" and e0: "ToNumber e0 = Num e"
  shows "\<exists>x. ToNumber (fst (intervalAndEase cfg rc e0 i0 d)) = Num x"
proof (cases "rc = Num 0")
  case True
  have "\<exists>x. ToNumber (DEFAULT_INTERVALS d) = Num x"
    using d by (elim disjE) (simp_all only: DEFAULT_INTERVALS_values ToNumber.simps, blast+)
  with True show ?thesis
    by (simp add: intervalAndEase_def)
next
  case False
  from d later_review_intervals [OF False i0 e0, of cfg] show ?thesis
    by (elim disjE) blast+
qed

text \<open>
  C3, as the specification states it: on a first review (\<open>reviewCount = 0\<close>) the new
  interval is the fixed lookup, 0.5 days for hard, 1 for good and 4 for easy, whatever the
  configuration. The program does not do that: the lookup value still passes through the
  load balancer and the cap. With the default configuration (load balancer on) and
  \<open>Math.random()\<close> returning 0, a first review answered good gets the interval 0.95.
\<close>

theorem C3_counterexample:
  "reviewCount defaultProgress = Num 0 \<and>
   interval (calculateReview \<lparr> config = DEFAULT_ALGORITHM_CONFIG, configLoaded = True \<rparr>
               0 1000 defaultProgress GOOD) = Num (19 / 20) \<and>
   Num (19 / 20) \<noteq> Num 1"
  by (simp add: calculateReview_def Let_def useDefaultsIfUnloaded_def DEFAULT_ALGORITHM_CONFIG_def
      defaultProgress_def intervalAndEase_def DEFAULT_INTERVALS_def difficulty_defs
      applyLoadBalancer_def js_ops)

text \<open>
  C3, amended: on a first review the new interval is exactly the lookup value whenever
  the load balancer does not touch it and the cap is not below it. That is: 0.5 for hard
  as soon as the cap is at least 0.5 (the load balancer leaves intervals under a day
  alone); 1 for good and 4 for easy when the load balancer is disabled and the cap is at
  least 1, respectively 4. The ease-based formula plays no part.
\<close>

theorem C3_first_review_lookup:
  assumes "reviewCount p = Num 0"
  shows "(1 / 2 \<le> maxIntervalDays (config (useDefaultsIfUnloaded alg)) \<longrightarrow>
            interval (calculateReview alg rnd now p HARD) = Num (1 / 2)) \<and>
         (\<not> enableLoadBalancer (config (useDefaultsIfUnloaded alg)) \<and>
          1 \<le> maxIntervalDays (config (useDefaultsIfUnloaded alg)) \<longrightarrow>
            interval (calculateReview alg rnd now p GOOD) = Num 1) \<and>
         (\<not> enableLoadBalancer (config (useDefaultsIfUnloaded alg)) \<and>
          4 \<le> maxIntervalDays (config (useDefaultsIfUnloaded alg)) \<longrightarrow>
            interval (calculateReview alg rnd now p EASY) = Num 4)"
proof -
  let ?cfg = "config (useDefaultsIfUnloaded alg)"
  let ?e0 = "withDefault (ease p) (Num (baseEase ?cfg))"
  let ?i0 = "withDefault (interval p) (Num 0)"
  have hard: "ToNumber (fst (intervalAndEase ?cfg (withDefault (reviewCount p) (Num 0)) ?e0 ?i0 HARD))
                = Num (1 / 2)"
    using assms by (simp add: intervalAndEase_first DEFAULT_INTERVALS_def)
  have good: "ToNumber (fst (intervalAndEase ?cfg (withDefault (reviewCount p) (Num 0)) ?e0 ?i0 GOOD))
                = Num 1"
    using assms by (simp add: intervalAndEase_first DEFAULT_INTERVALS_def difficulty_defs)
  have easy: "ToNumber (fst (intervalAndEase ?cfg (withDefault (reviewCount p) (Num 0)) ?e0 ?i0 EASY))
                = Num 4"
    using assms by (simp add: intervalAndEase_first DEFAULT_INTERVALS_def difficulty_defs)
  have 1: "1 / 2 \<le> maxIntervalDays ?cfg \<Longrightarrow>
             interval (calculateReview alg rnd now p HARD) = Num (1 / 2)"
    by (simp add: calculateReview_interval [OF hard] min_def)
  have 2: "\<not> enableLoadBalancer ?cfg \<Longrightarrow> 1 \<le> maxIntervalDays ?cfg \<Longrightarrow>
             interval (calculateReview alg rnd now p GOOD) = Num 1"
    by (simp add: calculateReview_interval [OF good] min_def)
  have 3: "\<not> enableLoadBalancer ?cfg \<Longrightarrow> 4 \<le> maxIntervalDays ?cfg \<Longrightarrow>
             interval (calculateReview alg rnd now p EASY) = Num 4"
    by (simp add: calculateReview_interval [OF easy] min_def)
  from 1 2 3 show ?thesis by blast
qed

theorem C3_first_review_lookup_witness:
  "reviewCount defaultProgress = Num 0 \<and>
   interval (calculateReview
               \<lparr> config = DEFAULT_ALGORITHM_CONFIG\<lparr>enableLoadBalancer := False\<rparr>, configLoaded = True \<rparr>
               (1 / 4) 1000 defaultProgress HARD) = Num (1 / 2) \<and>
   interval (calculateReview
               \<lparr> config = DEFAULT_ALGORITHM_CONFIG\<lparr>enableLoadBalancer := False\<rparr>, configLoaded = True \<rparr>
               (1 / 4) 1000 defaultProgress GOOD) = Num 1 \<and>
   interval (calculateReview
               \<lparr> config = DEFAULT_ALGORITHM_CONFIG\<lparr>enableLoadBalancer := False\<rparr>, configLoaded = True \<rparr>
               (1 / 4) 1000 defaultProgress EASY) = Num 4"
  using C3_first_review_lookup [of defaultProgress
      "\<lparr> config = DEFAULT_ALGORITHM_CONFIG\<lparr>enableLoadBalancer := False\<rparr>, configLoaded = True \<rparr>"
      "1 / 4" 1000]
  by (simp add: defaultProgress_def useDefaultsIfUnloaded_def DEFAULT_ALGORITHM_CONFIG_def)


text \<open>With the load balancer enabled the lookup values 1 and 4 of a first review are
  multiplied by a factor between 0.95 and 1.05 before the rounding, whatever the random
  source returns in \<open>[0, 1]\<close>.\<close>

lemma first_review_jitter:
  assumes "reviewCount p = Num 0" and "d = GOOD \<and> v = 1 \<or> d = EASY \<and> v = 4"
    and "enableLoadBalancer (config (useDefaultsIfUnloaded alg))"
    and "v * (21 / 20) \<le> maxIntervalDays (config (useDefaultsIfUnloaded alg))"
    and "0 \<le> rnd" and "rnd \<le> 1"
  shows "\<exists>x. interval (calculateReview alg rnd now p d) = Num x \<and>
              v * (19 / 20) \<le> x \<and> x \<le> v * (21 / 20)"
proof -
  let ?cfg = "config (useDefaultsIfUnloaded alg)"
  let ?y = "v * (1 + (rnd * 2 - 1) * (5 / 100))"
  have v: "v = 1 \<or> v = 4" using assms(2) by blast
  have "DEFAULT_INTERVALS d = Num v"
    using assms(2) DEFAULT_INTERVALS_values by blast
  then have x: "ToNumber (fst (intervalAndEase ?cfg (withDefault (reviewCount p) (Num 0))
                  (withDefault (ease p) (Num (baseEase ?cfg)))
                  (withDefault (interval p) (Num 0)) d)) = Num v"
    using assms(1) by (simp add: intervalAndEase_first)
  have lo: "v * (19 / 20) \<le> ?y" and hi: "?y \<le> v * (21 / 20)"
    using v assms(5,6) by (elim disjE; simp add: field_simps)+
  have "1 \<le> v" using v by auto
  moreover have "min ?y (maxIntervalDays ?cfg) = ?y" using hi assms(4) by linarith
  ultimately have eq:
    "interval (calculateReview alg rnd now p d) = Num (of_int \<lfloor>?y * 100 + 1 / 2\<rfloor> / 100)"
    unfolding calculateReview_interval [OF x, of rnd now] using assms(3) by (simp only: if_True simp_thms)
  have e1: "of_int \<lfloor>v * (19 / 20) * 100 + 1 / 2\<rfloor> / 100 = v * (19 / 20)"
    using v by (intro round2_exact) auto
  have e2: "of_int \<lfloor>v * (21 / 20) * 100 + 1 / 2\<rfloor> / 100 = v * (21 / 20)"
    using v by (intro round2_exact) auto
  have "v * (19 / 20) \<le> of_int \<lfloor>?y * 100 + 1 / 2\<rfloor> / 100"
    using round2_mono [OF lo] e1 by simp
  moreover have "of_int \<lfloor>?y * 100 + 1 / 2\<rfloor> / 100 \<le> v * (21 / 20)"
    using round2_mono [OF hi] e2 by simp
  ultimately show ?thesis using eq by blast
qed

text \<open>
  C5, as the specification states it: for every input record and every outcome the new
  interval is at most \<open>maxIntervalDays\<close>. The program caps the interval first and rounds
  it to two decimals afterwards, so a cap that is not a multiple of 0.01 can be overshot by
  the rounding: with a cap of 0.125 days (three hours) a first review answered hard gets
  the interval 0.13.
\<close>

theorem C5_counterexample:
  "interval (calculateReview
               \<lparr> config = DEFAULT_ALGORITHM_CONFIG\<lparr>maxIntervalDays := 1 / 8\<rparr>, configLoaded = True \<rparr>
               0 1000 defaultProgress HARD) = Num (13 / 100) \<and>
   \<not> (13 / 100 \<le> (1 / 8 :: real))"
  by (simp add: calculateReview_def Let_def useDefaultsIfUnloaded_def DEFAULT_ALGORITHM_CONFIG_def
      defaultProgress_def intervalAndEase_def DEFAULT_INTERVALS_def difficulty_defs
      applyLoadBalancer_def js_ops)

text \<open>
  C5, amended: when \<open>maxIntervalDays\<close> is a multiple of 0.01 (every whole number of days
  is, and so is the default 36525), then for every input record whose interval and ease
  are not \<open>NaN\<close> and for each of the three outcomes the new interval is a number and at
  most \<open>maxIntervalDays\<close>; this includes input intervals above the cap and any value of the
  random source.
\<close>

theorem C5_interval_capped:
  assumes d: "d = HARD \<or> d = GOOD \<or> d = EASY"
    and iv: "interval p \<noteq> NaN" and es: "ease p \<noteq> NaN"
    and cap: "maxIntervalDays (config (useDefaultsIfUnloaded alg)) * 100 \<in> \<int>"
  shows "\<exists>x. interval (calculateReview alg rnd now p d) = Num x \<and>
              x \<le> maxIntervalDays (config (useDefaultsIfUnloaded alg))"
proof -
  let ?cfg = "config (useDefaultsIfUnloaded alg)"
  obtain i where i: "ToNumber (withDefault (interval p) (Num 0)) = Num i"
    using ToNumber_withDefault [OF iv] by blast
  obtain e where e: "ToNumber (withDefault (ease p) (Num (baseEase ?cfg))) = Num e"
    using ToNumber_withDefault [OF es] by blast
  obtain x where x: "ToNumber (fst (intervalAndEase ?cfg (withDefault (reviewCount p) (Num 0))
                        (withDefault (ease p) (Num (baseEase ?cfg)))
                        (withDefault (interval p) (Num 0)) d)) = Num x"
    using intervalAndEase_numeric [OF d i e] by blast
  let ?b = "if enableLoadBalancer ?cfg \<and> 1 \<le> x then x * (1 + (rnd * 2 - 1) * (5 / 100)) else x"
  have "of_int \<lfloor>min ?b (maxIntervalDays ?cfg) * 100 + 1 / 2\<rfloor> / 100 \<le> maxIntervalDays ?cfg"
    by (rule round2_le [OF _ cap]) simp
  then show ?thesis
    using calculateReview_interval [OF x, of rnd now] by blast
qed

theorem C5_interval_capped_witness:
  "\<exists>x. interval (calculateReview \<lparr> config = DEFAULT_ALGORITHM_CONFIG, configLoaded = True \<rparr>
                    (1 / 2) 1000
                    \<lparr> reviewCount = Num 100, ease = Num 250, interval = Num 73050,
                      lastReview = Null, dueDate = Null, difficulty = None \<rparr> EASY) = Num x \<and>
       x \<le> 36525"
  using C5_interval_capped [of EASY
      "\<lparr> reviewCount = Num 100, ease = Num 250, interval = Num 73050,
         lastReview = Null, dueDate = Null, difficulty = None \<rparr>"
      "\<lparr> config = DEFAULT_ALGORITHM_CONFIG, configLoaded = True \<rparr>" "1 / 2" 1000]
  by (simp add: useDefaultsIfUnloaded_def DEFAULT_ALGORITHM_CONFIG_def)

text \<open>
  C4, as the specification states it: after the first review, with \<open>intervalChangeHard\<close>
  at most 100 and the load balancer disabled, the interval for hard is at most the input
  interval, and easy gives at least the interval of good, which gives at least that of hard.
  Nothing in the program relates \<open>easyBonus\<close> to 100: with \<open>easyBonus = 50\<close>, on a record
  with ease 250 and interval 1, good gives 2.5 days and easy only 1.25.
\<close>

theorem C4_counterexample:
  "intervalChangeHard (DEFAULT_ALGORITHM_CONFIG\<lparr>enableLoadBalancer := False, easyBonus := 50\<rparr>) \<le> 100 \<and>
   \<not> enableLoadBalancer (DEFAULT_ALGORITHM_CONFIG\<lparr>enableLoadBalancer := False, easyBonus := 50\<rparr>) \<and>
   interval (calculateReview
               \<lparr> config = DEFAULT_ALGORITHM_CONFIG\<lparr>enableLoadBalancer := False, easyBonus := 50\<rparr>,
                 configLoaded = True \<rparr>
               0 1000
               \<lparr> reviewCount = Num 1, ease = Num 250, interval = Num 1,
                 lastReview = Null, dueDate = Null, difficulty = None \<rparr> EASY) = Num (5 / 4) \<and>
   interval (calculateReview
               \<lparr> config = DEFAULT_ALGORITHM_CONFIG\<lparr>enableLoadBalancer := False, easyBonus := 50\<rparr>,
                 configLoaded = True \<rparr>
               0 1000
               \<lparr> reviewCount = Num 1, ease = Num 250, interval = Num 1,
                 lastReview = Null, dueDate = Null, difficulty = None \<rparr> GOOD) = Num (5 / 2) \<and>
   \<not> js_ge (Num (5 / 4)) (Num (5 / 2))"
  by (simp add: calculateReview_def Let_def useDefaultsIfUnloaded_def DEFAULT_ALGORITHM_CONFIG_def
      intervalAndEase_def difficulty_defs js_ops)

text \<open>Two more inputs on which the order fails. The record a first review answered good
  leaves for a card without stored progress has ease 0 (\<open>Math.round(null)\<close>; the default of
  the destructuring does not replace \<open>null\<close>), and on it good gives less than hard. And an
  input interval that is not a multiple of 0.01 can be exceeded by the rounded result for
  hard.\<close>

lemma good_below_hard_after_first_review:
  "calculateReview
     \<lparr> config = DEFAULT_ALGORITHM_CONFIG\<lparr>enableLoadBalancer := False\<rparr>, configLoaded = True \<rparr>
     0 1000 defaultProgress GOOD
   = \<lparr> reviewCount = Num 1, ease = Num 0, interval = Num 1,
       lastReview = Num 1000, dueDate = Num 86401000, difficulty = Some GOOD \<rparr> \<and>
   interval (calculateReview
     \<lparr> config = DEFAULT_ALGORITHM_CONFIG\<lparr>enableLoadBalancer := False\<rparr>, configLoaded = True \<rparr>
     0 1000
     \<lparr> reviewCount = Num 1, ease = Num 0, interval = Num 1,
       lastReview = Num 1000, dueDate = Num 86401000, difficulty = Some GOOD \<rparr> GOOD) = Num 0 \<and>
   interval (calculateReview
     \<lparr> config = DEFAULT_ALGORITHM_CONFIG\<lparr>enableLoadBalancer := False\<rparr>, configLoaded = True \<rparr>
     0 1000
     \<lparr> reviewCount = Num 1, ease = Num 0, interval = Num 1,
       lastReview = Num 1000, dueDate = Num 86401000, difficulty = Some GOOD \<rparr> HARD) = Num (1 / 2)"
  by (simp add: calculateReview_def Let_def useDefaultsIfUnloaded_def DEFAULT_ALGORITHM_CONFIG_def
      defaultProgress_def intervalAndEase_def DEFAULT_INTERVALS_def difficulty_defs js_ops)

lemma hard_above_unrounded_input:
  "interval (calculateReview
     \<lparr> config = DEFAULT_ALGORITHM_CONFIG\<lparr>enableLoadBalancer := False, intervalChangeHard := 100\<rparr>,
       configLoaded = True \<rparr>
     0 1000
     \<lparr> reviewCount = Num 1, ease = Num 250, interval = Num (1 / 128),
       lastReview = Null, dueDate = Null, difficulty = None \<rparr> HARD) = Num (1 / 100) \<and>
   \<not> (1 / 100 \<le> (1 / 128 :: real))"
  by (simp add: calculateReview_def Let_def useDefaultsIfUnloaded_def DEFAULT_ALGORITHM_CONFIG_def
      intervalAndEase_def difficulty_defs js_ops)

text \<open>
  C4, amended: for every input record with \<open>reviewCount > 0\<close>, an interval that is
  non-negative and a multiple of 0.01, and an ease that is non-negative and at least
  \<open>intervalChangeHard\<close>, and for every configuration with \<open>intervalChangeHard\<close> at most 100,
  \<open>easyBonus\<close> at least 100 and the load balancer disabled: the interval for hard is at most
  the input interval, and the intervals for hard, good and easy are in ascending order.
\<close>

theorem C4_interval_order:
  assumes rc: "reviewCount p = Num n" "0 < n"
    and iv: "interval p = Num i" "0 \<le> i" "i * 100 \<in> \<int>"
    and es: "ease p = Num e" "0 \<le> e"
        "intervalChangeHard (config (useDefaultsIfUnloaded alg)) \<le> e"
    and lb: "\<not> enableLoadBalancer (config (useDefaultsIfUnloaded alg))"
    and hc: "intervalChangeHard (config (useDefaultsIfUnloaded alg)) \<le> 100"
    and eb: "100 \<le> easyBonus (config (useDefaultsIfUnloaded alg))"
  shows "\<exists>h g z. interval (calculateReview alg rnd now p HARD) = Num h \<and>
                  interval (calculateReview alg rnd now p GOOD) = Num g \<and>
                  interval (calculateReview alg rnd now p EASY) = Num z \<and>
                  h \<le> i \<and> h \<le> g \<and> g \<le> z"
proof -
  let ?cfg = "config (useDefaultsIfUnloaded alg)"
  let ?cap = "maxIntervalDays ?cfg"
  let ?xh = "i * (intervalChangeHard ?cfg / 100)"
  let ?xg = "i * (e / 100)"
  let ?xz = "i * (e / 100) * (easyBonus ?cfg / 100)"
  let ?r = "\<lambda>x::real. (of_int \<lfloor>min x ?cap * 100 + 1 / 2\<rfloor> / 100 :: real)"
  have rc0: "withDefault (reviewCount p) (Num 0) \<noteq> Num 0" using rc by simp
  have i0: "ToNumber (withDefault (interval p) (Num 0)) = Num i" using iv(1) by simp
  have e0: "ToNumber (withDefault (ease p) (Num (baseEase ?cfg))) = Num e" using es(1) by simp
  note L = later_review_intervals [OF rc0 i0 e0, of ?cfg]
  have H: "interval (calculateReview alg rnd now p HARD) = Num (?r ?xh)"
    using calculateReview_interval [OF L(1), of rnd now] lb by simp
  have G: "interval (calculateReview alg rnd now p GOOD) = Num (?r ?xg)"
    using calculateReview_interval [OF L(2), of rnd now] lb by simp
  have Z: "interval (calculateReview alg rnd now p EASY) = Num (?r ?xz)"
    using calculateReview_interval [OF L(3), of rnd now] lb by simp
  have hi: "?xh \<le> i"
  proof -
    have "i * (intervalChangeHard ?cfg / 100) \<le> i * 1"
      using hc iv(2) by (intro mult_left_mono) simp_all
    then show ?thesis by simp
  qed
  have hg: "?xh \<le> ?xg"
    using es(3) iv(2) by (intro mult_left_mono) (simp_all add: divide_right_mono)
  have g0: "0 \<le> ?xg" using iv(2) es(2) by simp
  have gz: "?xg \<le> ?xz"
  proof -
    have "?xg * 1 \<le> ?xg * (easyBonus ?cfg / 100)"
      using g0 eb by (intro mult_left_mono) simp_all
    then show ?thesis by simp
  qed
  have 1: "?r ?xh \<le> i"
  proof -
    have "min ?xh ?cap \<le> i" using hi by simp
    then have "?r ?xh \<le> of_int \<lfloor>i * 100 + 1 / 2\<rfloor> / 100"
      by (rule round2_mono)
    then show ?thesis using round2_exact [OF iv(3)] by simp
  qed
  have 2: "?r ?xh \<le> ?r ?xg"
    by (intro round2_mono min.mono hg order_refl)
  have 3: "?r ?xg \<le> ?r ?xz"
    by (intro round2_mono min.mono gz order_refl)
  from H G Z 1 2 3 show ?thesis by blast
qed

theorem C4_interval_order_witness:
  "\<exists>h g z.
     interval (calculateReview
                 \<lparr> config = DEFAULT_ALGORITHM_CONFIG\<lparr>enableLoadBalancer := False\<rparr>, configLoaded = True \<rparr>
                 0 1000
                 \<lparr> reviewCount = Num 1, ease = Num 250, interval = Num 10,
                   lastReview = Null, dueDate = Null, difficulty = None \<rparr> HARD) = Num h \<and>
     interval (calculateReview
                 \<lparr> config = DEFAULT_ALGORITHM_CONFIG\<lparr>enableLoadBalancer := False\<rparr>, configLoaded = True \<rparr>
                 0 1000
                 \<lparr> reviewCount = Num 1, ease = Num 250, interval = Num 10,
                   lastReview = Null, dueDate = Null, difficulty = None \<rparr> GOOD) = Num g \<and>
     interval (calculateReview
                 \<lparr> config = DEFAULT_ALGORITHM_CONFIG\<lparr>enableLoadBalancer := False\<rparr>, configLoaded = True \<rparr>
                 0 1000
                 \<lparr> reviewCount = Num 1, ease = Num 250, interval = Num 10,
                   lastReview = Null, dueDate = Null, difficulty = None \<rparr> EASY) = Num z \<and>
     h \<le> 10 \<and> h \<le> g \<and> g \<le> z"
  using C4_interval_order [of
      "\<lparr> reviewCount = Num 1, ease = Num 250, interval = Num 10,
         lastReview = Null, dueDate = Null, difficulty = None \<rparr>" 1 10 250
      "\<lparr> config = DEFAULT_ALGORITHM_CONFIG\<lparr>enableLoadBalancer := False\<rparr>, configLoaded = True \<rparr>"
      0 1000]
  by (simp add: useDefaultsIfUnloaded_def DEFAULT_ALGORITHM_CONFIG_def)


section \<open>The review algorithm: ease\<close>

lemma calculateReview_ease:
  "ease (calculateReview alg rnd now p d) =
     Math_round (snd (intervalAndEase (config (useDefaultsIfUnloaded alg))
        (withDefault (reviewCount p) (Num 0))
        (withDefault (ease p) (Num (baseEase (config (useDefaultsIfUnloaded alg)))))
        (withDefault (interval p) (Num 0)) d))"
  by (simp add: calculateReview_def Let_def)

lemma Math_round_of_int: "Math_round (Num (of_int k)) = Num (of_int k)"
  by (simp add: round_of_int)

text \<open>
  C6: for every input record with \<open>reviewCount > 0\<close> and current ease \<open>e\<close> (an integer, as
  the data model has it), \<open>calculateReview\<close> returns the ease \<open>max(130, e - 20)\<close> for hard,
  which is never below the floor 130, the ease \<open>e + 15\<close> for easy, and \<open>e\<close> unchanged for
  good. This holds under every configuration: the floor is the literal 130 of the program.
\<close>

theorem C6_ease_update:
  assumes "reviewCount p = Num n" and "0 < n" and "ease p = Num (of_int e)"
  shows "ease (calculateReview alg rnd now p HARD) = Num (of_int (max 130 (e - 20))) \<and>
         130 \<le> max 130 (e - 20) \<and>
         ease (calculateReview alg rnd now p EASY) = Num (of_int (e + 15)) \<and>
         ease (calculateReview alg rnd now p GOOD) = Num (of_int e)"
proof -
  have rc0: "withDefault (reviewCount p) (Num 0) \<noteq> Num 0" using assms by simp
  have e0: "withDefault (ease p) d = Num (of_int e)" for d using assms by simp
  have "max 130 (real_of_int e - 20) = of_int (max 130 (e - 20))"
    by simp
  then have hard: "ease (calculateReview alg rnd now p HARD) = Num (of_int (max 130 (e - 20)))"
    unfolding calculateReview_ease intervalAndEase_hard [OF rc0] e0 snd_conv js_ops js_arith_Num
    by (simp only: Math_round_of_int)
  have "real_of_int e + 15 = of_int (e + 15)" by simp
  then have easy: "ease (calculateReview alg rnd now p EASY) = Num (of_int (e + 15))"
    unfolding calculateReview_ease intervalAndEase_easy [OF rc0] e0 snd_conv js_ops js_arith_Num
    by (simp only: Math_round_of_int)
  have good: "ease (calculateReview alg rnd now p GOOD) = Num (of_int e)"
    unfolding calculateReview_ease intervalAndEase_good [OF rc0] e0 snd_conv
    by (rule Math_round_of_int)
  from hard easy good show ?thesis by simp
qed

theorem C6_ease_update_witness:
  "ease (calculateReview \<lparr> config = DEFAULT_ALGORITHM_CONFIG, configLoaded = True \<rparr> (1 / 2) 1000
           \<lparr> reviewCount = Num 3, ease = Num 140, interval = Num 6,
             lastReview = Null, dueDate = Null, difficulty = None \<rparr> HARD) = Num 130 \<and>
   ease (calculateReview \<lparr> config = DEFAULT_ALGORITHM_CONFIG, configLoaded = True \<rparr> (1 / 2) 1000
           \<lparr> reviewCount = Num 3, ease = Num 140, interval = Num 6,
             lastReview = Null, dueDate = Null, difficulty = None \<rparr> EASY) = Num 155 \<and>
   ease (calculateReview \<lparr> config = DEFAULT_ALGORITHM_CONFIG, configLoaded = True \<rparr> (1 / 2) 1000
           \<lparr> reviewCount = Num 3, ease = Num 140, interval = Num 6,
             lastReview = Null, dueDate = Null, difficulty = None \<rparr> GOOD) = Num 140"
  using C6_ease_update [of
      "\<lparr> reviewCount = Num 3, ease = Num 140, interval = Num 6,
         lastReview = Null, dueDate = Null, difficulty = None \<rparr>" 3 140
      "\<lparr> config = DEFAULT_ALGORITHM_CONFIG, configLoaded = True \<rparr>" "1 / 2" 1000]
  by simp

text \<open>
  C10: \<open>calculateReview\<close> is total on outcome strings. For every input record with
  \<open>reviewCount > 0\<close> (integer ease, numeric interval) and every outcome other than hard,
  good and easy it returns a record with the review count incremented by one, the ease
  unchanged, \<open>lastReview\<close> set to now and the outcome recorded; the new interval before the
  load balancer and the cap is the old interval, so that the stored interval and the due
  date are those of the old interval after jitter, cap and rounding.
\<close>

theorem C10_unknown_outcome:
  assumes "reviewCount p = Num n" and "0 < n"
    and "d \<noteq> HARD" and "d \<noteq> GOOD" and "d \<noteq> EASY"
    and "ease p = Num (of_int e)" and "interval p = Num i"
  shows "fst (intervalAndEase (config (useDefaultsIfUnloaded alg))
                (withDefault (reviewCount p) (Num 0))
                (withDefault (ease p) (Num (baseEase (config (useDefaultsIfUnloaded alg)))))
                (withDefault (interval p) (Num 0)) d) = interval p \<and>
         reviewCount (calculateReview alg rnd now p d) = Num (n + 1) \<and>
         ease (calculateReview alg rnd now p d) = ease p \<and>
         lastReview (calculateReview alg rnd now p d) = Num now \<and>
         difficulty (calculateReview alg rnd now p d) = Some d \<and>
         (\<exists>x. x = min (if enableLoadBalancer (config (useDefaultsIfUnloaded alg)) \<and> 1 \<le> i
                        then i * (1 + (rnd * 2 - 1) * (5 / 100)) else i)
                       (maxIntervalDays (config (useDefaultsIfUnloaded alg))) \<and>
              interval (calculateReview alg rnd now p d) = Num (of_int \<lfloor>x * 100 + 1 / 2\<rfloor> / 100) \<and>
              dueDate (calculateReview alg rnd now p d) = Num (now + x * (24 * 60 * 60 * 1000)))"
proof -
  let ?cfg = "config (useDefaultsIfUnloaded alg)"
  have rc0: "withDefault (reviewCount p) (Num 0) \<noteq> Num 0" using assms by simp
  note other = intervalAndEase_other [OF rc0 assms(3,4,5)]
  have a: "fst (intervalAndEase ?cfg (withDefault (reviewCount p) (Num 0))
                (withDefault (ease p) (Num (baseEase ?cfg)))
                (withDefault (interval p) (Num 0)) d) = interval p"
    using assms(7) by (simp add: other)
  have b: "reviewCount (calculateReview alg rnd now p d) = Num (n + 1)"
    using assms(1) by (simp add: calculateReview_def Let_def js_ops)
  have c: "ease (calculateReview alg rnd now p d) = ease p"
    unfolding calculateReview_ease other snd_conv using assms(6) by (simp add: round_of_int)
  have e: "lastReview (calculateReview alg rnd now p d) = Num now"
    by (simp add: calculateReview_def Let_def)
  have f: "difficulty (calculateReview alg rnd now p d) = Some d"
    by (simp add: calculateReview_def Let_def)
  have x: "ToNumber (fst (intervalAndEase ?cfg (withDefault (reviewCount p) (Num 0))
                (withDefault (ease p) (Num (baseEase ?cfg)))
                (withDefault (interval p) (Num 0)) d)) = Num i"
    using a assms(7) by simp
  have g: "dueDate (calculateReview alg rnd now p d) =
             Num (now + min (if enableLoadBalancer ?cfg \<and> 1 \<le> i
                             then i * (1 + (rnd * 2 - 1) * (5 / 100)) else i)
                            (maxIntervalDays ?cfg) * (24 * 60 * 60 * 1000))"
    using assms(7)
    by (simp add: calculateReview_def Let_def other applyLoadBalancer_def js_ops)
  from a b c e f g calculateReview_interval [OF x, of rnd now] show ?thesis by blast
qed

theorem C10_unknown_outcome_witness:
  "reviewCount (calculateReview \<lparr> config = DEFAULT_ALGORITHM_CONFIG, configLoaded = True \<rparr> (1 / 2) 1000
      \<lparr> reviewCount = Num 2, ease = Num 250, interval = Num 3,
        lastReview = Null, dueDate = Null, difficulty = None \<rparr> ''again'') = Num 3 \<and>
   ease (calculateReview \<lparr> config = DEFAULT_ALGORITHM_CONFIG, configLoaded = True \<rparr> (1 / 2) 1000
      \<lparr> reviewCount = Num 2, ease = Num 250, interval = Num 3,
        lastReview = Null, dueDate = Null, difficulty = None \<rparr> ''again'') = Num 250 \<and>
   interval (calculateReview \<lparr> config = DEFAULT_ALGORITHM_CONFIG, configLoaded = True \<rparr> (1 / 2) 1000
      \<lparr> reviewCount = Num 2, ease = Num 250, interval = Num 3,
        lastReview = Null, dueDate = Null, difficulty = None \<rparr> ''again'') = Num 3 \<and>
   lastReview (calculateReview \<lparr> config = DEFAULT_ALGORITHM_CONFIG, configLoaded = True \<rparr> (1 / 2) 1000
      \<lparr> reviewCount = Num 2, ease = Num 250, interval = Num 3,
        lastReview = Null, dueDate = Null, difficulty = None \<rparr> ''again'') = Num 1000 \<and>
   dueDate (calculateReview \<lparr> config = DEFAULT_ALGORITHM_CONFIG, configLoaded = True \<rparr> (1 / 2) 1000
      \<lparr> reviewCount = Num 2, ease = Num 250, interval = Num 3,
        lastReview = Null, dueDate = Null, difficulty = None \<rparr> ''again'') = Num 259201000"
  using C10_unknown_outcome [of
      "\<lparr> reviewCount = Num 2, ease = Num 250, interval = Num 3,
         lastReview = Null, dueDate = Null, difficulty = None \<rparr>" 2 "''again''" 250 3
      "\<lparr> config = DEFAULT_ALGORITHM_CONFIG, configLoaded = True \<rparr>" "1 / 2" 1000]
  by (simp add: difficulty_defs useDefaultsIfUnloaded_def DEFAULT_ALGORITHM_CONFIG_def)

lemma max_130_of_int: "max 130 (real_of_int k) = real_of_int (max 130 k)"
  by simp

text \<open>
  C8, as the specification states it: \<open>calculateInitialEase\<close> uses the weighted formula
  when a linked ease is given and \<open>maxLinkContribution\<close> is positive. The program tests the
  linked ease for truthiness, so a linked ease of 0, though given, is ignored: under the
  default configuration it answers 250 where the formula gives 125, floored to 130.
\<close>

theorem C8_counterexample:
  "calculateInitialEase \<lparr> config = DEFAULT_ALGORITHM_CONFIG, configLoaded = True \<rparr> (Num 0) = Num 250 \<and>
   calculateInitialEase_spec DEFAULT_ALGORITHM_CONFIG (Some 0) = 130"
  by (simp add: calculateInitialEase_def calculateInitialEase_spec_def Let_def
      DEFAULT_ALGORITHM_CONFIG_def js_ops)

text \<open>
  C8, amended: \<open>calculateInitialEase\<close> returns \<open>baseEase + (linkedEase - baseEase) *
  (maxLinkContribution / 100)\<close> when a linked ease other than 0 is given and
  \<open>maxLinkContribution\<close> is positive, and \<open>baseEase\<close> otherwise (also when the linked ease
  is 0, \<open>null\<close> or not given), always rounded to an integer and raised to at least 130.
\<close>

theorem C8_initial_ease:
  "(l \<noteq> 0 \<longrightarrow>
      calculateInitialEase alg (Num l) =
        Num (of_int (calculateInitialEase_spec (config alg) (Some l)))) \<and>
   calculateInitialEase alg Undefined = Num (of_int (calculateInitialEase_spec (config alg) None)) \<and>
   calculateInitialEase alg Null = Num (of_int (calculateInitialEase_spec (config alg) None)) \<and>
   calculateInitialEase alg (Num 0) = Num (of_int (calculateInitialEase_spec (config alg) None)) \<and>
   130 \<le> calculateInitialEase_spec (config alg) given"
proof -
  have 1: "l \<noteq> 0 \<Longrightarrow> calculateInitialEase alg (Num l) =
        Num (of_int (calculateInitialEase_spec (config alg) (Some l)))"
    by (simp add: calculateInitialEase_def calculateInitialEase_spec_def Let_def js_ops
        max_130_of_int del: of_int_max)
  have 2: "calculateInitialEase alg Undefined =
        Num (of_int (calculateInitialEase_spec (config alg) None))"
    by (simp add: calculateInitialEase_def calculateInitialEase_spec_def Let_def js_ops
        max_130_of_int del: of_int_max)
  have 3: "calculateInitialEase alg Null =
        Num (of_int (calculateInitialEase_spec (config alg) None))"
    by (simp add: calculateInitialEase_def calculateInitialEase_spec_def Let_def js_ops
        max_130_of_int del: of_int_max)
  have 4: "130 \<le> calculateInitialEase_spec (config alg) given"
    by (simp add: calculateInitialEase_spec_def Let_def)
  have 5: "calculateInitialEase alg (Num 0) =
        Num (of_int (calculateInitialEase_spec (config alg) None))"
    by (simp add: calculateInitialEase_def calculateInitialEase_spec_def Let_def js_ops
        max_130_of_int del: of_int_max)
  from 1 2 3 4 5 show ?thesis by blast
qed

theorem C8_initial_ease_witness:
  "calculateInitialEase \<lparr> config = DEFAULT_ALGORITHM_CONFIG, configLoaded = True \<rparr> (Num 301) = Num 276 \<and>
   calculateInitialEase \<lparr> config = DEFAULT_ALGORITHM_CONFIG, configLoaded = True \<rparr> Undefined = Num 250"
  using C8_initial_ease [of 301 "\<lparr> config = DEFAULT_ALGORITHM_CONFIG, configLoaded = True \<rparr>" None]
  by (simp add: calculateInitialEase_spec_def Let_def DEFAULT_ALGORITHM_CONFIG_def)



section \<open>The scheduler: failures\<close>

text \<open>
  C2, as the specification states it: no operation of the scheduler ever throws; every
  failure is a return value. The guards of the program cover one failure only, the
  dependencies not being set. A scheduler whose dependencies are set while the manager has
  not loaded its progress yet (its state right after the constructor) throws a TypeError
  from \<open>getNextFlashcard\<close>: the due tier finds no card, and the unshown tier reads
  \<open>this.progress.completed\<close> of the \<open>null\<close> progress.
\<close>

theorem C2_counterexample:
  "getNextFlashcard
     (setDependencies newScheduler
        (newFlashcardManager \<lparr> stored = None, lastError = False \<rparr>)
        \<lparr> config = DEFAULT_ALGORITHM_CONFIG, configLoaded = True \<rparr>) 0 0
   = Throws TypeError"
  by (simp add: getNextFlashcard_def setDependencies_def newScheduler_def newFlashcardManager_def
      getDueFlashcard_def getAllFlashcards_def Array_sort_def getUnshownFlashcard_def
      getUnshownFlashcards_def)

text \<open>\<open>recordReview\<close> throws in that state as well, reading the progress of the card.\<close>

lemma recordReview_throws_before_load:
  "fst (recordReview
     (setDependencies newScheduler
        (newFlashcardManager \<lparr> stored = None, lastError = False \<rparr>)
        \<lparr> config = DEFAULT_ALGORITHM_CONFIG, configLoaded = True \<rparr>) 0 0 ''fc-1'' GOOD)
   = Throws TypeError"
  by (simp add: recordReview_def setDependencies_def newScheduler_def newFlashcardManager_def
      getFlashcardProgress_def)

text \<open>
  C2, amended: when the dependencies of the scheduler are not set (the flashcard manager
  or the algorithm is \<open>null\<close>), \<open>getNextFlashcard\<close> returns \<open>null\<close>, \<open>recordReview\<close> does
  nothing, \<open>getSchedulingStats\<close> returns the all-zero statistics and
  \<open>hasFlashcardsAvailable\<close> returns \<open>false\<close>; \<open>markForLater\<close> does nothing when the flashcard
  manager is \<open>null\<close>. None of them throws there.
\<close>

theorem C2_unwired_no_throw:
  "(flashcardManager sch = None \<or> algorithm sch = None \<longrightarrow>
      getNextFlashcard sch now rnd = Returns None \<and>
      recordReview sch rnd now i d = (Returns (), sch) \<and>
      getSchedulingStats sch now =
        Returns \<lparr> dueCount = 0, newCount = 0, laterCount = 0, total = 0 \<rparr> \<and>
      hasFlashcardsAvailable sch now rnd = Returns False) \<and>
   (flashcardManager sch = None \<longrightarrow> markForLater sch i = (Returns (), sch))"
proof -
  have 1: "flashcardManager sch = None \<or> algorithm sch = None \<Longrightarrow>
             getNextFlashcard sch now rnd = Returns None"
    by (simp add: getNextFlashcard_def)
  have 2: "flashcardManager sch = None \<or> algorithm sch = None \<Longrightarrow>
             recordReview sch rnd now i d = (Returns (), sch)"
    by (auto simp: recordReview_def split: option.splits)
  have 3: "flashcardManager sch = None \<or> algorithm sch = None \<Longrightarrow>
             getSchedulingStats sch now =
               Returns \<lparr> dueCount = 0, newCount = 0, laterCount = 0, total = 0 \<rparr>"
    by (auto simp: getSchedulingStats_def split: option.splits)
  have 4: "flashcardManager sch = None \<or> algorithm sch = None \<Longrightarrow>
             hasFlashcardsAvailable sch now rnd = Returns False"
    by (simp add: hasFlashcardsAvailable_def)
  have 5: "flashcardManager sch = None \<Longrightarrow> markForLater sch i = (Returns (), sch)"
    by (simp add: markForLater_def)
  from 1 2 3 4 5 show ?thesis by blast
qed

theorem C2_unwired_no_throw_witness:
  "getNextFlashcard newScheduler 5000 0 = Returns None \<and>
   recordReview newScheduler 0 5000 ''fc-1'' GOOD = (Returns (), newScheduler) \<and>
   getSchedulingStats newScheduler 5000 =
     Returns \<lparr> dueCount = 0, newCount = 0, laterCount = 0, total = 0 \<rparr> \<and>
   hasFlashcardsAvailable newScheduler 5000 0 = Returns False \<and>
   markForLater newScheduler ''fc-1'' = (Returns (), newScheduler)"
  using C2_unwired_no_throw [of newScheduler 5000 0 "''fc-1''" GOOD]
  by (simp add: newScheduler_def)

text \<open>Once the progress is loaded and has its repeat-later queue, the reading operations
  of a scheduler return normally, and the total of the statistics is the size of the
  catalog.\<close>

lemma mapOutcome_Returns:
  "(\<And>x. x \<in> set xs \<Longrightarrow> f x = Returns (g x)) \<Longrightarrow> mapOutcome f xs = Returns (map g xs)"
  by (induction xs) simp_all

lemma getFlashcardProgress_loaded:
  "progress m = Some pd \<Longrightarrow>
     getFlashcardProgress m i =
       Returns (case flashcardData pd i of Some r \<Rightarrow> r | None \<Rightarrow> defaultProgress)"
  by (simp add: getFlashcardProgress_def)

lemma loaded_reads_return:
  assumes "flashcardManager sch = Some m" and "progress m = Some pd" and "repeatLater pd = Some q"
  shows "\<exists>r. getNextFlashcard sch now rnd = Returns r"
    and "\<exists>b. hasFlashcardsAvailable sch now rnd = Returns b"
proof -
  let ?g = "\<lambda>fc. (fc, case flashcardData pd (id_fc fc) of Some r \<Rightarrow> r | None \<Rightarrow> defaultProgress)"
  have m: "mapOutcome
          (\<lambda>fc. case getFlashcardProgress m (id_fc fc) of
                  Throws e \<Rightarrow> Throws e
                | Returns fcProgress \<Rightarrow> Returns (fc, fcProgress))
          (flashcards m) = Returns (map ?g (flashcards m))"
    by (intro mapOutcome_Returns) (simp add: getFlashcardProgress_loaded [OF assms(2)])
  have d: "\<exists>r. getDueFlashcard sch now = Returns r"
    using assms(1) m
    by (simp add: getDueFlashcard_def getAllFlashcards_def Let_def split: option.splits list.splits)
  have u: "\<exists>r. getUnshownFlashcard sch rnd = Returns r"
    using assms(1,2)
    by (simp add: getUnshownFlashcard_def getUnshownFlashcards_def Let_def
        getFlashcardProgress_loaded [OF assms(2)] split: option.splits)
  have l: "\<exists>r. getLaterFlashcard sch = Returns r"
    using assms
    by (simp add: getLaterFlashcard_def getFlashcardProgress_loaded [OF assms(2)]
        split: option.splits list.splits)
  from d u l show n: "\<exists>r. getNextFlashcard sch now rnd = Returns r"
    by (auto simp: getNextFlashcard_def split: option.splits)
  then show "\<exists>b. hasFlashcardsAvailable sch now rnd = Returns b"
    by (auto simp: hasFlashcardsAvailable_def)
qed


lemma countFlashcard_loaded:
  assumes "progress m = Some pd" and "repeatLater pd = Some q"
  shows "\<exists>st'. countFlashcard m (Some pd) now fc st = Returns st' \<and> total st' = total st"
  using assms
  by (simp add: countFlashcard_def getFlashcardProgress_loaded [OF assms(1)] Let_def)

lemma forEachCount_loaded:
  assumes "progress m = Some pd" and "repeatLater pd = Some q"
  shows "\<exists>st'. forEachCount m (Some pd) now fcs st = Returns st' \<and> total st' = total st"
proof (induction fcs arbitrary: st)
  case Nil
  show ?case by simp
next
  case (Cons fc fcs)
  obtain st1 where st1: "countFlashcard m (Some pd) now fc st = Returns st1" "total st1 = total st"
    using countFlashcard_loaded [OF assms] by blast
  with Cons.IH [of st1] show ?case by simp
qed

lemma getSchedulingStats_loaded:
  assumes "flashcardManager sch = Some m" and "progress m = Some pd" and "repeatLater pd = Some q"
  shows "\<exists>st. getSchedulingStats sch now = Returns st \<and>
              (algorithm sch \<noteq> None \<longrightarrow> total st = length (flashcards m))"
  using assms
    forEachCount_loaded [OF assms(2,3), of now "flashcards m"
      "\<lparr> dueCount = 0, newCount = 0, laterCount = 0, total = length (flashcards m) \<rparr>"]
  by (auto simp: getSchedulingStats_def getAllFlashcards_def Let_def split: option.splits)


section \<open>The scheduler: the repeat-later queue and the completed set\<close>

lemma saveProgress_loaded:
  "progress m = Some pd \<Longrightarrow>
     saveProgress m =
       (Returns (), m\<lparr>storage := (if lastError (storage m) then storage m
                                   else (storage m)\<lparr>stored := Some pd\<rparr>)\<rparr>)"
  by (simp add: saveProgress_def storage_saveProgress_def)

lemma loadProgress_progress: "progress (loadProgress m) \<noteq> None"
  by (simp add: loadProgress_def)

lemma fm_markForLater_result:
  assumes "q0 = laterQueue (if progress m = None then loadProgress m else m)"
  shows "fst (fm_markForLater m i) = Returns () \<and>
         laterQueue (snd (fm_markForLater m i)) = (if i \<in> set q0 then q0 else q0 @ [i]) \<and>
         progress (snd (fm_markForLater m i)) \<noteq> None \<and>
         (\<exists>pd. progress (snd (fm_markForLater m i)) = Some pd \<and> repeatLater pd \<noteq> None)"
  using assms
  by (auto simp: fm_markForLater_def laterQueue_def Let_def saveProgress_loaded loadProgress_def
      split: option.splits)

lemma fm_markForLater_again:
  assumes "progress m = Some pd" and "repeatLater pd = Some q" and "i \<in> set q"
  shows "fm_markForLater m i = (Returns (), m)"
  using assms by (simp add: fm_markForLater_def Let_def)

text \<open>
  C9: \<open>markForLater\<close> is idempotent. With \<open>q0\<close> the queue the manager holds (after loading
  the progress, if it was not loaded), one call returns normally and leaves the queue
  \<open>q0\<close> itself when the id is already in it, and \<open>q0\<close> with the id appended at the tail
  otherwise; the id is then in the queue exactly once (\<open>q0\<close> not holding it twice already),
  and a second call changes nothing at all.
\<close>

theorem C9_markForLater_idempotent:
  assumes "flashcardManager sch = Some m"
    and "q0 = laterQueue (if progress m = None then loadProgress m else m)"
  shows "\<exists>m1. markForLater sch i = (Returns (), sch\<lparr>flashcardManager := Some m1\<rparr>) \<and>
              laterQueue m1 = (if i \<in> set q0 then q0 else q0 @ [i]) \<and>
              (count_list q0 i \<le> 1 \<longrightarrow> count_list (laterQueue m1) i = 1) \<and>
              markForLater (sch\<lparr>flashcardManager := Some m1\<rparr>) i
                = (Returns (), sch\<lparr>flashcardManager := Some m1\<rparr>)"
proof -
  let ?m1 = "snd (fm_markForLater m i)"
  note r = fm_markForLater_result [OF assms(2), of i]
  have a: "markForLater sch i = (Returns (), sch\<lparr>flashcardManager := Some ?m1\<rparr>)"
    using assms(1) r by (cases "fm_markForLater m i") (simp add: markForLater_def)
  have b: "laterQueue ?m1 = (if i \<in> set q0 then q0 else q0 @ [i])" using r by blast
  have c: "count_list q0 i \<le> 1 \<Longrightarrow> count_list (laterQueue ?m1) i = 1"
    unfolding b using count_list_0_iff [of q0 i] by (cases "i \<in> set q0") simp_all
  obtain pd where pd: "progress ?m1 = Some pd" "repeatLater pd \<noteq> None" using r by blast
  then obtain q where q: "repeatLater pd = Some q" by blast
  have "laterQueue ?m1 = q" using pd(1) q by (simp add: laterQueue_def)
  moreover have "i \<in> set (if i \<in> set q0 then q0 else q0 @ [i])" by simp
  ultimately have "i \<in> set q" using b by simp
  then have "fm_markForLater ?m1 i = (Returns (), ?m1)"
    using pd(1) q by (intro fm_markForLater_again)
  then have d: "markForLater (sch\<lparr>flashcardManager := Some ?m1\<rparr>) i
                  = (Returns (), sch\<lparr>flashcardManager := Some ?m1\<rparr>)"
    by (simp add: markForLater_def)
  from a b c d show ?thesis by blast
qed

theorem C9_markForLater_idempotent_witness:
  "\<exists>m1. markForLater exampleScheduler ''fc-1''
          = (Returns (), exampleScheduler\<lparr>flashcardManager := Some m1\<rparr>) \<and>
        laterQueue m1 = [''fc-1''] \<and>
        count_list (laterQueue m1) ''fc-1'' = 1 \<and>
        markForLater (exampleScheduler\<lparr>flashcardManager := Some m1\<rparr>) ''fc-1''
          = (Returns (), exampleScheduler\<lparr>flashcardManager := Some m1\<rparr>)"
  using C9_markForLater_idempotent [of exampleScheduler exampleManager "[]" "''fc-1''"]
  by (simp add: exampleScheduler_def exampleManager_def exampleProgress_def laterQueue_def)

lemma spread_calculateReview:
  "spread old (calculateReview alg rnd now cur d) = calculateReview alg rnd now cur d"
  by (simp add: spread_def calculateReview_def Let_def withDefault_def js_ops)

lemma updateFlashcardProgress_loaded:
  assumes "progress m = Some pd"
  shows "updateFlashcardProgress m i (calculateReview alg rnd now cur d) =
           (Returns (),
            m\<lparr>progress := Some (pd\<lparr>flashcardData :=
                                    (flashcardData pd)(i \<mapsto> calculateReview alg rnd now cur d)\<rparr>),
              storage := (if lastError (storage m) then storage m
                          else (storage m)\<lparr>stored := Some (pd\<lparr>flashcardData :=
                                    (flashcardData pd)(i \<mapsto> calculateReview alg rnd now cur d)\<rparr>)\<rparr>)\<rparr>)"
  using assms
  by (simp add: updateFlashcardProgress_def Let_def spread_calculateReview saveProgress_loaded)

lemma markAsDone_loaded:
  assumes "progress m = Some pd"
  shows "markAsDone m i =
           (Returns (),
            if i \<notin> set (completed pd)
            then m\<lparr>progress := Some (pd\<lparr>completed := completed pd @ [i]\<rparr>),
                   storage := (if lastError (storage m) then storage m
                               else (storage m)\<lparr>stored := Some (pd\<lparr>completed := completed pd @ [i]\<rparr>)\<rparr>)\<rparr>
            else m)"
  using assms by (simp add: markAsDone_def saveProgress_loaded)

lemma removeFromLater_loaded:
  assumes "progress m = Some pd" and "repeatLater pd = Some q"
  shows "removeFromLater m i =
           (Returns (),
            m\<lparr>progress := Some (pd\<lparr>repeatLater := Some (filter (\<lambda>fcId. fcId \<noteq> i) q)\<rparr>),
              storage := (if lastError (storage m) then storage m
                          else (storage m)\<lparr>stored :=
                                 Some (pd\<lparr>repeatLater := Some (filter (\<lambda>fcId. fcId \<noteq> i) q)\<rparr>)\<rparr>)\<rparr>)"
  using assms by (simp add: removeFromLater_def saveProgress_loaded)

text \<open>
  C7: \<open>recordReview(id, outcome)\<close>, on a scheduler with its dependencies set and the
  progress loaded, writes the record \<open>calculateReview\<close> computes from the current one (to
  the progress in memory, and to storage when the write succeeds). With the outcome good
  or easy it also adds the id to the completed set, only if it is absent, and removes it
  from the repeat-later queue; with the outcome hard the completed set and the queue stay
  as they are.
\<close>

theorem C7_recordReview:
  assumes "flashcardManager sch = Some m" and "algorithm sch = Some alg"
    and "progress m = Some pd" and "repeatLater pd = Some q"
    and "cur = (case flashcardData pd i of Some r \<Rightarrow> r | None \<Rightarrow> defaultProgress)"
    and "upd = calculateReview alg rnd now cur d"
  shows "\<exists>m'. recordReview sch rnd now i d =
                 (Returns (), sch\<lparr>flashcardManager := Some m',
                                   algorithm := Some (useDefaultsIfUnloaded alg)\<rparr>) \<and>
              flashcards m' = flashcards m \<and>
              (\<not> lastError (storage m) \<longrightarrow> stored (storage m') = progress m') \<and>
              (d = GOOD \<or> d = EASY \<longrightarrow>
                 progress m' =
                   Some (pd\<lparr>flashcardData := (flashcardData pd)(i \<mapsto> upd),
                            completed := (if i \<in> set (completed pd) then completed pd
                                          else completed pd @ [i]),
                            repeatLater := Some (filter (\<lambda>fcId. fcId \<noteq> i) q)\<rparr>)) \<and>
              (d = HARD \<longrightarrow>
                 progress m' = Some (pd\<lparr>flashcardData := (flashcardData pd)(i \<mapsto> upd)\<rparr>))"
proof -
  have cur: "getFlashcardProgress m i = Returns cur"
    using assms(3,5) by (simp add: getFlashcardProgress_def)
  let ?pd1 = "pd\<lparr>flashcardData := (flashcardData pd)(i \<mapsto> upd)\<rparr>"
  let ?m1 = "m\<lparr>progress := Some ?pd1,
               storage := (if lastError (storage m) then storage m
                           else (storage m)\<lparr>stored := Some ?pd1\<rparr>)\<rparr>"
  have u: "updateFlashcardProgress m i upd = (Returns (), ?m1)"
    unfolding assms(6) by (rule updateFlashcardProgress_loaded [OF assms(3)])
  have p1: "progress ?m1 = Some ?pd1" by simp
  show ?thesis
  proof (cases "d = GOOD \<or> d = EASY")
    case False
    then have "recordReview sch rnd now i d =
                 (Returns (), sch\<lparr>flashcardManager := Some ?m1,
                                   algorithm := Some (useDefaultsIfUnloaded alg)\<rparr>)"
      using assms(1,2) cur u
      by (simp add: recordReview_def Let_def andThen_def assms(6) [symmetric])
    moreover have "d \<noteq> GOOD \<and> d \<noteq> EASY" using False by simp
    ultimately show ?thesis
      by (intro exI [of _ ?m1]) simp
  next
    case True
    let ?pd2 = "if i \<notin> set (completed pd) then ?pd1\<lparr>completed := completed pd @ [i]\<rparr> else ?pd1"
    obtain m2 where m2: "markAsDone ?m1 i = (Returns (), m2)"
      and p2: "progress m2 = Some ?pd2" and f2: "flashcards m2 = flashcards m"
      and l2: "lastError (storage m2) = lastError (storage m)"
      using markAsDone_loaded [OF p1, of i] by (cases "i \<in> set (completed pd)") simp_all
    have q2: "repeatLater ?pd2 = Some q" using assms(4) by simp
    let ?pd3 = "?pd2\<lparr>repeatLater := Some (filter (\<lambda>fcId. fcId \<noteq> i) q)\<rparr>"
    let ?m3 = "m2\<lparr>progress := Some ?pd3,
                  storage := (if lastError (storage m2) then storage m2
                              else (storage m2)\<lparr>stored := Some ?pd3\<rparr>)\<rparr>"
    have r: "removeFromLater m2 i = (Returns (), ?m3)"
      by (rule removeFromLater_loaded [OF p2 q2])
    have "recordReview sch rnd now i d =
                 (Returns (), sch\<lparr>flashcardManager := Some ?m3,
                                   algorithm := Some (useDefaultsIfUnloaded alg)\<rparr>)"
      using assms(1,2) cur u m2 r True
      by (simp add: recordReview_def Let_def andThen_def assms(6) [symmetric])
    moreover have "d \<noteq> HARD" using True by (auto simp: difficulty_defs)
    ultimately show ?thesis
      using f2 l2 by (intro exI [of _ ?m3]) simp
  qed
qed

theorem C7_recordReview_witness:
  "(\<exists>m'. recordReview exampleScheduler (1 / 2) 5000 ''fc-3'' GOOD =
            (Returns (), exampleScheduler\<lparr>flashcardManager := Some m'\<rparr>) \<and>
          progress m' =
            Some (exampleProgress
                   \<lparr>flashcardData := (flashcardData exampleProgress)
                      (''fc-3'' \<mapsto> calculateReview
                         \<lparr> config = DEFAULT_ALGORITHM_CONFIG, configLoaded = True \<rparr>
                         (1 / 2) 5000 defaultProgress GOOD),
                    completed := [''fc-2'', ''fc-3'']\<rparr>) \<and>
          stored (storage m') = progress m') \<and>
   (\<exists>m'. recordReview exampleScheduler (1 / 2) 5000 ''fc-3'' HARD =
            (Returns (), exampleScheduler\<lparr>flashcardManager := Some m'\<rparr>) \<and>
          progress m' =
            Some (exampleProgress
                   \<lparr>flashcardData := (flashcardData exampleProgress)
                      (''fc-3'' \<mapsto> calculateReview
                         \<lparr> config = DEFAULT_ALGORITHM_CONFIG, configLoaded = True \<rparr>
                         (1 / 2) 5000 defaultProgress HARD)\<rparr>) \<and>
          stored (storage m') = progress m')"
  using
    C7_recordReview [of exampleScheduler exampleManager
      "\<lparr> config = DEFAULT_ALGORITHM_CONFIG, configLoaded = True \<rparr>" exampleProgress "[]"
      defaultProgress "''fc-3''"
      "calculateReview \<lparr> config = DEFAULT_ALGORITHM_CONFIG, configLoaded = True \<rparr>
         (1 / 2) 5000 defaultProgress GOOD" "1 / 2" 5000 GOOD]
    C7_recordReview [of exampleScheduler exampleManager
      "\<lparr> config = DEFAULT_ALGORITHM_CONFIG, configLoaded = True \<rparr>" exampleProgress "[]"
      defaultProgress "''fc-3''"
      "calculateReview \<lparr> config = DEFAULT_ALGORITHM_CONFIG, configLoaded = True \<rparr>
         (1 / 2) 5000 defaultProgress HARD" "1 / 2" 5000 HARD]
  by (auto simp add: exampleScheduler_def exampleManager_def exampleProgress_def
      useDefaultsIfUnloaded_def difficulty_defs)


section \<open>The scheduler: the next card\<close>

text \<open>
  C1, as the specification states it: with one overdue card (review count above 0), one
  due in the future and one never reviewed (no due date, review count 0),
  \<open>getNextFlashcard\<close> returns the overdue card. The sort rule stated along with it decides
  otherwise: the never-reviewed card has no due date, so it is compared with the overdue
  one by review count, and 0 reviews come first. On the example catalog at time 5000 the
  card returned is \<open>fc-3\<close>, the never-reviewed one, and not \<open>fc-1\<close>, the overdue one.
\<close>

theorem C1_counterexample:
  "getFlashcardProgress exampleManager (id_fc fc1) = Returns overdueRecord \<and>
   getFlashcardProgress exampleManager (id_fc fc2) = Returns futureRecord \<and>
   getFlashcardProgress exampleManager (id_fc fc3) = Returns defaultProgress \<and>
   getNextFlashcard exampleScheduler 5000 0 = Returns (Some (fc3, defaultProgress)) \<and>
   fc3 \<noteq> fc1"
  by (simp add: example_defs getFlashcardProgress_def getNextFlashcard_def getDueFlashcard_def
      getAllFlashcards_def defaultProgress_def isDue_def Array_sort_def compareDue_def
      js_or_def js_gt_def js_ops)

lemma compareDue_both_dates:
  "dueDate (snd a) = Num x \<and> x \<noteq> 0 \<and> dueDate (snd b) = Num y \<and> y \<noteq> 0 \<Longrightarrow>
     compareDue a b = Num (x - y)"
  by (simp add: compareDue_def js_ops)

lemma compareDue_by_reviewCount:
  "(\<not> truthy (dueDate (snd a)) \<or> \<not> truthy (dueDate (snd b))) \<and>
   reviewCount (snd a) = Num j \<and> reviewCount (snd b) = Num k \<Longrightarrow>
     compareDue a b = Num (j - k)"
  by (auto simp: compareDue_def js_or_def js_ops)

lemma compareDue_new_first:
  assumes "\<not> truthy (dueDate pn)" and "reviewCount pn = Num 0"
    and "reviewCount po = Num c" and "0 < c"
  shows "js_gt (compareDue (a, po) (b, pn)) (Num 0)"
    and "\<not> js_gt (compareDue (b, pn) (a, po)) (Num 0)"
  using assms by (simp_all add: compareDue_def js_or_def js_gt_def js_ops)

lemma sort_two:
  assumes "js_gt (cmp x y) (Num 0)" and "\<not> js_gt (cmp y x) (Num 0)"
  shows "Array_sort cmp [x, y] = [y, x]" and "Array_sort cmp [y, x] = [y, x]"
  using assms by (simp_all add: Array_sort_def)

text \<open>
  C1, amended: for a catalog of three cards, in any order, where one is overdue (due date
  in the past, review count above 0), one is future-dated and one has never been reviewed
  (no due date, review count 0), \<open>getNextFlashcard\<close> returns the never-reviewed card. The
  sort rule of the due tier compares the due dates numerically when both are present, and
  the review counts, fewer first, when either due date is absent.
\<close>

theorem C1_next_is_never_reviewed:
  assumes wired: "flashcardManager sch = Some m" "algorithm sch = Some alg"
    and catalog: "flashcards m \<in> {[late, ahead, fresh], [late, fresh, ahead], [ahead, late, fresh],
                                  [ahead, fresh, late], [fresh, late, ahead], [fresh, ahead, late]}"
    and overdue: "getFlashcardProgress m (id_fc late) = Returns pl"
        "dueDate pl = Num dl" "dl < now" "reviewCount pl = Num c" "0 < c"
    and future: "getFlashcardProgress m (id_fc ahead) = Returns pa"
        "dueDate pa = Num da" "now < da" "0 \<le> now"
    and never: "getFlashcardProgress m (id_fc fresh) = Returns pf"
        "\<not> truthy (dueDate pf)" "reviewCount pf = Num 0"
  shows "getNextFlashcard sch now rnd = Returns (Some (fresh, pf)) \<and>
         (\<forall>a b x y. dueDate (snd a) = Num x \<and> x \<noteq> 0 \<and> dueDate (snd b) = Num y \<and> y \<noteq> 0 \<longrightarrow>
            compareDue a b = Num (x - y)) \<and>
         (\<forall>a b j k. (\<not> truthy (dueDate (snd a)) \<or> \<not> truthy (dueDate (snd b))) \<and>
                    reviewCount (snd a) = Num j \<and> reviewCount (snd b) = Num k \<longrightarrow>
            compareDue a b = Num (j - k))"
proof -
  let ?g = "\<lambda>fc. (fc, if fc = late then pl else if fc = ahead then pa else pf)"
  let ?keep = "\<lambda>(fc, p). \<not> truthy (dueDate p) \<or> isDue now p"
  have kl: "?keep (late, pl)" using overdue by (simp add: isDue_def)
  have ka: "\<not> ?keep (ahead, pa)" using future by (simp add: isDue_def)
  have kf: "?keep (fresh, pf)" using never by simp
  have la: "late \<noteq> ahead" using overdue(1,2,3) future by auto
  have lf: "late \<noteq> fresh" using overdue(1,4,5) never by auto
  have af: "ahead \<noteq> fresh" using future never by auto
  have set: "set (flashcards m) = {late, ahead, fresh}" using catalog by auto
  have "mapOutcome
          (\<lambda>fc. case getFlashcardProgress m (id_fc fc) of
                  Throws e \<Rightarrow> Throws e
                | Returns fcProgress \<Rightarrow> Returns (fc, fcProgress))
          (flashcards m) = Returns (map ?g (flashcards m))"
    using overdue(1) future(1) never(1) la lf af
    by (intro mapOutcome_Returns) (auto simp: set)
  moreover have "filter ?keep (map ?g (flashcards m))
                   \<in> {[(late, pl), (fresh, pf)], [(fresh, pf), (late, pl)]}"
    using catalog kl ka kf la lf af by auto
  moreover have "js_gt (compareDue (late, pl) (fresh, pf)) (Num 0)"
    and "\<not> js_gt (compareDue (fresh, pf) (late, pl)) (Num 0)"
    by (rule compareDue_new_first [OF never(2,3) overdue(4,5)])+
  then have "Array_sort compareDue [(late, pl), (fresh, pf)] = [(fresh, pf), (late, pl)]"
    "Array_sort compareDue [(fresh, pf), (late, pl)] = [(fresh, pf), (late, pl)]"
    by (rule sort_two)+
  ultimately have "getDueFlashcard sch now = Returns (Some (fresh, pf))"
    using wired by (auto simp: getDueFlashcard_def getAllFlashcards_def)
  then have "getNextFlashcard sch now rnd = Returns (Some (fresh, pf))"
    using wired by (simp add: getNextFlashcard_def)
  then show ?thesis
    using compareDue_both_dates compareDue_by_reviewCount by blast
qed

theorem C1_next_is_never_reviewed_witness:
  "getNextFlashcard exampleScheduler 5000 (1 / 2) = Returns (Some (fc3, defaultProgress))"
  using C1_next_is_never_reviewed [of exampleScheduler exampleManager
      "\<lparr> config = DEFAULT_ALGORITHM_CONFIG, configLoaded = True \<rparr>"
      fc1 fc2 fc3 overdueRecord 2000 5000 1 futureRecord 9000 defaultProgress "1 / 2"]
  by (simp add: example_defs getFlashcardProgress_def defaultProgress_def)

end
